theory Spec2Isabelle
  imports Complex_Main "HOL-Library.Multiset"
begin

section \<open>Data model (types.ts)\<close>

text \<open>
  The entity types of \<^verbatim>\<open>types.ts\<close>. Optional fields (\<^verbatim>\<open>officerOrg?\<close>, \<^verbatim>\<open>avatarUrl?\<close>, ...)
  are options: \<open>None\<close> stands for \<^verbatim>\<open>undefined\<close> and for the \<^verbatim>\<open>null\<close> the store returns
  for an empty column. A field holding an ISO date string that the code only ever reads through
  \<^verbatim>\<open>new Date(s).getTime()\<close> (\<^verbatim>\<open>Workshop.date\<close>, \<^verbatim>\<open>User.createdAt\<close>) is the instant the
  string denotes, in milliseconds; the date strings that are only copied (\<^verbatim>\<open>issuedAt\<close>) stay
  strings. Field names carry a prefix for their record.
\<close>

datatype Role = MEMBER | ADMIN | OFFICER

datatype Organization = CES | TCC | ICSO | GENERAL

datatype NotificationType = INFO | SUCCESS | WARNING

record Notification =
  n_id :: string
  n_title :: string
  n_message :: string
  n_type :: NotificationType
  n_read :: bool
  n_createdAt :: string

record Badge =
  b_id :: string
  b_title :: string
  b_issuedAt :: string
  b_organization :: Organization
  b_workshopTitle :: string
  b_imageUrl :: "string option"

record Certificate =
  c_id :: string
  c_title :: string
  c_issuedAt :: string
  c_organization :: Organization
  c_workshopTitle :: string
  c_content :: string
  c_fileUrl :: "string option"

record User =
  u_id :: string
  u_name :: string
  u_email :: string
  u_role :: Role
  u_officerOrg :: "Organization option"
  u_avatarUrl :: "string option"
  u_createdAt :: int
  u_badges :: "Badge list"
  u_certificates :: "Certificate list"
  u_notifications :: "Notification list"

record Comment =
  cm_id :: string
  cm_userId :: string
  cm_userName :: string
  cm_userAvatar :: "string option"
  cm_content :: string
  cm_createdAt :: string

record Participant =
  p_id :: string
  p_name :: string
  p_email :: string
  p_avatarUrl :: "string option"

record Workshop =
  w_id :: string
  w_title :: string
  w_description :: string
  w_date :: int
  w_organization :: Organization
  w_bannerUrl :: "string option"
  w_badgeUrl :: "string option"
  w_certificateUrl :: "string option"
  w_limit :: nat
  w_participants :: "Participant list"
  w_comments :: "Comment list"

record Announcement =
  a_id :: string
  a_title :: string
  a_content :: string
  a_imageUrl :: "string option"
  a_organization :: Organization
  a_authorId :: string
  a_authorName :: string
  a_authorRole :: Role
  a_authorAvatar :: "string option"
  a_likes :: "string list"
  a_comments :: "Comment list"
  a_createdAt :: string

section \<open>Array.prototype.sort\<close>

text \<open>
  \<^verbatim>\<open>xs.sort(cmp)\<close> is a stable sort: \<open>a\<close> goes before \<open>b\<close> when \<open>cmp a b < 0\<close>, and
  elements that compare equal keep their order. For a consistent comparator the result is
  determined by that; it is computed here by insertion, from the right end of the array.
\<close>

fun insert_js :: "('a \<Rightarrow> 'a \<Rightarrow> int) \<Rightarrow> 'a \<Rightarrow> 'a list \<Rightarrow> 'a list" where
  "insert_js cmp x [] = [x]"
| "insert_js cmp x (y # ys) =
     (if cmp x y \<le> 0 then x # y # ys else y # insert_js cmp x ys)"

fun sort_js :: "('a \<Rightarrow> 'a \<Rightarrow> int) \<Rightarrow> 'a list \<Rightarrow> 'a list" where
  "sort_js cmp [] = []"
| "sort_js cmp (x # xs) = insert_js cmp x (sort_js cmp xs)"

section \<open>Derived analytics (App.tsx, analyticsData)\<close>

record OrgStat =
  s_name :: Organization
  s_workshops :: nat
  s_announcements :: nat
  s_participants :: nat
  s_score :: nat

record Analytics =
  an_perOrg :: "OrgStat list"
  an_mostActive :: "OrgStat option"
  an_totalAwards :: nat
  an_newMembers :: nat

definition orgs :: "Organization list" where
  "orgs = [CES, TCC, ICSO, GENERAL]"

text \<open>The comparator \<^verbatim>\<open>(a, b) => b.score - a.score\<close>.\<close>

definition byScoreDesc :: "OrgStat \<Rightarrow> OrgStat \<Rightarrow> int" where
  "byScoreDesc a b = int (s_score b) - int (s_score a)"

definition orgStat :: "Workshop list \<Rightarrow> Announcement list \<Rightarrow> Organization \<Rightarrow> OrgStat" where
  "orgStat workshops announcements org =
     (let orgW = filter (\<lambda>w. w_organization w = org) workshops;
          orgA = filter (\<lambda>a. a_organization a = org) announcements;
          totalParts = foldl (\<lambda>acc w. acc + length (w_participants w)) 0 orgW;
          engagementScore = (length orgW * 5) + (length orgA * 2) + (totalParts * 1)
      in \<lparr> s_name = org, s_workshops = length orgW, s_announcements = length orgA,
           s_participants = totalParts, s_score = engagementScore \<rparr>)"

text \<open>
  \<^verbatim>\<open>thirtyDaysAgo\<close> is the instant the runtime's calendar gives for "now minus 30 days";
  it is an input here. \<^verbatim>\<open>[...perOrg].sort(...)[0]\<close> is \<^verbatim>\<open>undefined\<close> on an empty array.
\<close>

definition analyticsData ::
  "Workshop list \<Rightarrow> Announcement list \<Rightarrow> User list \<Rightarrow> int \<Rightarrow> Analytics" where
  "analyticsData workshops announcements users thirtyDaysAgo =
     (let perOrg = map (orgStat workshops announcements) orgs;
          mostActive = (case sort_js byScoreDesc perOrg of [] \<Rightarrow> None | s # _ \<Rightarrow> Some s);
          totalAwards =
            foldl (\<lambda>acc u. acc + length (u_badges u) + length (u_certificates u)) 0 users;
          newMembersCount = length (filter (\<lambda>u. u_createdAt u > thirtyDaysAgo) users)
      in \<lparr> an_perOrg = perOrg, an_mostActive = mostActive, an_totalAwards = totalAwards,
           an_newMembers = newMembersCount \<rparr>)"

text \<open>The analytics view lists \<^verbatim>\<open>analyticsData.perOrg.sort((a,b) => b.score - a.score)\<close>.\<close>

definition leaderboard :: "Analytics \<Rightarrow> OrgStat list" where
  "leaderboard a = sort_js byScoreDesc (an_perOrg a)"

section \<open>Attendance trend (App.tsx, AttendanceTrendChart)\<close>

text \<open>
  JavaScript numbers are doubles. Sums, differences and products of the small integers that
  occur here are exact; a quotient, and every operation on a quotient, is rounded. The rounding
  is the parameter \<open>fl\<close> of the model: the theorems need of it only that it is monotone and
  leaves the integers up to 600 unchanged, which rounding to the nearest double does, and so
  does the identity. The two SVG path strings built from the points (\<^verbatim>\<open>pathData\<close>,
  \<^verbatim>\<open>areaPath\<close>) are number formatting and are left out of the record.
\<close>

record Point =
  pt_x :: rat
  pt_y :: rat
  pt_title :: string
  pt_count :: nat
  pt_org :: Organization






definition chartPoint ::
  "(rat \<Rightarrow> rat) \<Rightarrow> nat \<Rightarrow> nat \<Rightarrow> nat \<Rightarrow> nat \<Rightarrow> nat \<Rightarrow> nat \<Rightarrow> Workshop \<Rightarrow> Point" where
  "chartPoint fl width height padding maxAttendance n i w =
     (let x = fl (of_nat padding + fl (of_nat (i * (width - 2 * padding)) / of_nat (n - 1)));
          y = fl (of_nat (height - padding)
                  - fl (fl (of_nat (length (w_participants w)) / of_nat maxAttendance)
                        * of_nat (height - 2 * padding)))
      in \<lparr> pt_x = x, pt_y = y, pt_title = w_title w, pt_count = length (w_participants w),
           pt_org = w_organization w \<rparr>)"


section \<open>The hosted store as the gateway sees it\<close>

text \<open>
  An error value as \<^verbatim>\<open>formatError\<close> reads it: a string, or an object with an optional
  \<^verbatim>\<open>message\<close>, an optional \<^verbatim>\<open>error_description\<close> and its \<^verbatim>\<open>JSON.stringify\<close> text.
\<close>

datatype error = ErrString string | ErrObject "string option" "string option" string

text \<open>A string property that is present and not empty (a truthy value), if there is one.\<close>

definition truthy :: "string option \<Rightarrow> string option" where
  "truthy s = (case s of None \<Rightarrow> None | Some t \<Rightarrow> if t = [] then None else Some t)"

fun formatError :: "error \<Rightarrow> string" where
  "formatError (ErrString s) = s"
| "formatError (ErrObject message error_description json) =
     (case truthy message of Some m \<Rightarrow> m
      | None \<Rightarrow> (case truthy error_description of Some d \<Rightarrow> d | None \<Rightarrow> json))"

text \<open>
  What \<^verbatim>\<open>await supabase.from(t)...\<close> gives: the promise resolves to an object
  \<^verbatim>\<open>{ data, error }\<close>, or it rejects and the \<^verbatim>\<open>await\<close> throws. The gateway is written for
  both: it tests \<^verbatim>\<open>error\<close> where it destructures the object, and its callers wrap it in
  \<^verbatim>\<open>try\<close>/\<^verbatim>\<open>catch\<close>.
\<close>

datatype 'a awaited = Resolves "'a option" "error option" | Rejects error

text \<open>A function body that may throw is a sum; \<open>Inl e\<close> is the exception \<open>e\<close>.\<close>

definition try_catch :: "error + 'a \<Rightarrow> (error \<Rightarrow> error + 'a) \<Rightarrow> error + 'a" where
  "try_catch body handler = (case body of Inl e \<Rightarrow> handler e | Inr v \<Rightarrow> Inr v)"

text \<open>\<^verbatim>\<open>const { data, error } = await q; if (error) throw error;\<close> followed by a use of \<open>data\<close>.\<close>

definition await_checked :: "'a awaited \<Rightarrow> error + 'a option" where
  "await_checked r = (case r of Rejects e \<Rightarrow> Inl e
                | Resolves d err \<Rightarrow> (case err of Some e \<Rightarrow> Inl e | None \<Rightarrow> Inr d))"

text \<open>A bare \<^verbatim>\<open>await q;\<close> whose result is dropped.\<close>

definition await_dropped :: "'a awaited \<Rightarrow> error + unit" where
  "await_dropped r = (case r of Rejects e \<Rightarrow> Inl e | Resolves d err \<Rightarrow> Inr ())"

subsection \<open>Rows\<close>

record profile_row =
  pr_id :: string
  pr_name :: string
  pr_email :: string
  pr_role :: Role
  pr_officer_org :: "Organization option"
  pr_avatar_url :: "string option"
  pr_created_at :: int

record badge_row =
  br_id :: string
  br_title :: string
  br_organization :: Organization
  br_workshop_title :: string
  br_issued_at :: string
  br_image_url :: "string option"

record certificate_row =
  cr_id :: string
  cr_title :: string
  cr_organization :: Organization
  cr_workshop_title :: string
  cr_content :: string
  cr_issued_at :: string
  cr_file_url :: "string option"

record notification_row =
  nr_id :: string
  nr_title :: string
  nr_message :: string
  nr_type :: NotificationType
  nr_is_read :: bool
  nr_created_at :: string

text \<open>The nested \<^verbatim>\<open>profiles (id, name, email, avatar_url)\<close> of a participation row.\<close>

record profile_ref =
  pf_id :: string
  pf_name :: string
  pf_email :: string
  pf_avatar_url :: "string option"

text \<open>A comment row with its joined \<^verbatim>\<open>profiles(name, avatar_url)\<close>, which may be missing.\<close>

record comment_row =
  cmr_id :: string
  cmr_user_id :: string
  cmr_content :: string
  cmr_created_at :: string
  cmr_profiles :: "(string option \<times> string option) option"

record workshop_row =
  wr_id :: string
  wr_title :: string
  wr_description :: string
  wr_date :: int
  wr_organization :: Organization
  wr_banner_url :: "string option"
  wr_badge_url :: "string option"
  wr_certificate_url :: "string option"
  wr_participant_limit :: "nat option"
  wr_workshop_participants :: "profile_ref option list"
  wr_comments :: "comment_row list"

subsection \<open>Payloads of the writes\<close>

record profile_update =
  pu_name :: string
  pu_email :: string
  pu_role :: Role
  pu_officer_org :: "Organization option"
  pu_avatar_url :: "string option"

record notification_insert =
  ni_user_id :: string
  ni_title :: string
  ni_message :: string
  ni_type :: NotificationType
  ni_is_read :: bool

record badge_insert =
  bi_user_id :: string
  bi_title :: string
  bi_organization :: Organization
  bi_workshop_title :: string
  bi_issued_at :: string
  bi_image_url :: "string option"

record certificate_insert =
  ci_user_id :: string
  ci_title :: string
  ci_organization :: Organization
  ci_workshop_title :: string
  ci_content :: string
  ci_issued_at :: string
  ci_file_url :: "string option"

text \<open>The write requests the modelled gateway operations send, one constructor per query.\<close>

datatype request =
    UpdateProfile string profile_update
  | InsertParticipant string string
  | InsertLike string string
  | DeleteLike string string
  | InsertNotification notification_insert
  | InsertBadge badge_insert
  | InsertCertificate certificate_insert
  | DeleteBadges string string
  | DeleteCertificates string string

datatype event = Alert string | Tick | SelectionCleared | Sent request

text \<open>
  The state a workflow runs in: the tables of the store that the modelled writes touch, and
  the trace of what the workflow did that is visible outside it (alerts shown, the
  \<^verbatim>\<open>setDataTick\<close> that triggers the reload, requests sent). The tables keep the rows as the
  client sent them; the columns the store generates (\<^verbatim>\<open>id\<close>, \<^verbatim>\<open>created_at\<close>) are not
  filtered on by any modelled write and are left out of the inserted rows.
\<close>

record world =
  t_profiles :: "profile_row list"
  t_workshop_participants :: "(string \<times> string) list"
  t_announcement_likes :: "(string \<times> string) list"
  t_notifications :: "notification_insert list"
  t_badges :: "badge_insert list"
  t_certificates :: "certificate_insert list"
  events :: "event list"

text \<open>What the store does with a write it serves.\<close>

fun exec :: "request \<Rightarrow> world \<Rightarrow> world" where
  "exec (UpdateProfile uid upd) s =
     s\<lparr> t_profiles :=
          map (\<lambda>r. if pr_id r = uid
                    then r\<lparr> pr_name := pu_name upd, pr_email := pu_email upd,
                            pr_role := pu_role upd, pr_officer_org := pu_officer_org upd,
                            pr_avatar_url := pu_avatar_url upd \<rparr>
                    else r) (t_profiles s) \<rparr>"
| "exec (InsertParticipant wid uid) s =
     s\<lparr> t_workshop_participants := t_workshop_participants s @ [(wid, uid)] \<rparr>"
| "exec (InsertLike aid uid) s =
     s\<lparr> t_announcement_likes := t_announcement_likes s @ [(aid, uid)] \<rparr>"
| "exec (DeleteLike aid uid) s =
     s\<lparr> t_announcement_likes := filter (\<lambda>l. l \<noteq> (aid, uid)) (t_announcement_likes s) \<rparr>"
| "exec (InsertNotification n) s = s\<lparr> t_notifications := t_notifications s @ [n] \<rparr>"
| "exec (InsertBadge b) s = s\<lparr> t_badges := t_badges s @ [b] \<rparr>"
| "exec (InsertCertificate c) s = s\<lparr> t_certificates := t_certificates s @ [c] \<rparr>"
| "exec (DeleteBadges uid title) s =
     s\<lparr> t_badges :=
          filter (\<lambda>b. \<not> (bi_user_id b = uid \<and> bi_workshop_title b = title)) (t_badges s) \<rparr>"
| "exec (DeleteCertificates uid title) s =
     s\<lparr> t_certificates :=
          filter (\<lambda>c. \<not> (ci_user_id c = uid \<and> ci_workshop_title c = title))
                 (t_certificates s) \<rparr>"

text \<open>
  The store answers each write as it chooses: \<open>backend q\<close> is what the \<^verbatim>\<open>await\<close> of the
  query \<open>q\<close> gives. A write is served, and takes effect, when the promise resolves with no
  error.
\<close>

type_synonym backend = "request \<Rightarrow> unit awaited"

fun served :: "'a awaited \<Rightarrow> bool" where
  "served (Resolves d None) = True"
| "served (Resolves d (Some e)) = False"
| "served (Rejects e) = False"

definition send :: "backend \<Rightarrow> request \<Rightarrow> world \<Rightarrow> unit awaited \<times> world" where
  "send bk q s =
     (let s1 = s\<lparr> events := events s @ [Sent q] \<rparr>
      in (bk q, if served (bk q) then exec q s1 else s1))"

section \<open>Entity mapper and reads (storageService)\<close>

text \<open>What \<^verbatim>\<open>await Promise.all([...])\<close> gives: the resolved values, or the first rejection.\<close>

fun resolved :: "'a awaited \<Rightarrow> error + ('a option \<times> error option)" where
  "resolved (Resolves d err) = Inr (d, err)"
| "resolved (Rejects e) = Inl e"

fun promise_all :: "(error + 'a) list \<Rightarrow> error + 'a list" where
  "promise_all [] = Inr []"
| "promise_all (p # ps) =
     (case p of Inl e \<Rightarrow> Inl e
      | Inr v \<Rightarrow> (case promise_all ps of Inl e \<Rightarrow> Inl e | Inr vs \<Rightarrow> Inr (v # vs)))"

text \<open>\<^verbatim>\<open>(res.data || [])\<close>.\<close>

definition data_or_empty :: "'a list option \<times> error option \<Rightarrow> 'a list" where
  "data_or_empty res = (case fst res of None \<Rightarrow> [] | Some rows \<Rightarrow> rows)"

definition mapBadge :: "badge_row \<Rightarrow> Badge" where
  "mapBadge b = \<lparr> b_id = br_id b, b_title = br_title b, b_issuedAt = br_issued_at b,
                  b_organization = br_organization b, b_workshopTitle = br_workshop_title b,
                  b_imageUrl = br_image_url b \<rparr>"

definition mapCertificate :: "certificate_row \<Rightarrow> Certificate" where
  "mapCertificate c = \<lparr> c_id = cr_id c, c_title = cr_title c, c_issuedAt = cr_issued_at c,
                        c_organization = cr_organization c,
                        c_workshopTitle = cr_workshop_title c, c_content = cr_content c,
                        c_fileUrl = cr_file_url c \<rparr>"

definition mapNotification :: "notification_row \<Rightarrow> Notification" where
  "mapNotification n = \<lparr> n_id = nr_id n, n_title = nr_title n, n_message = nr_message n,
                         n_type = nr_type n, n_read = nr_is_read n,
                         n_createdAt = nr_created_at n \<rparr>"

text \<open>
  The answers of the store to the three sub-fetches of \<^verbatim>\<open>mapProfileToUser\<close> (badges,
  certificates, notifications with \<^verbatim>\<open>user_id\<close> equal to the profile's id), by user id.
\<close>

type_synonym subfetch =
  "string \<Rightarrow> badge_row list awaited \<times> certificate_row list awaited
            \<times> notification_row list awaited"

definition profileUser ::
  "profile_row \<Rightarrow> Badge list \<Rightarrow> Certificate list \<Rightarrow> Notification list \<Rightarrow> User" where
  "profileUser profile bs cs ns =
     \<lparr> u_id = pr_id profile, u_name = pr_name profile, u_email = pr_email profile,
       u_role = pr_role profile, u_officerOrg = pr_officer_org profile,
       u_avatarUrl = pr_avatar_url profile, u_createdAt = pr_created_at profile,
       u_badges = bs, u_certificates = cs, u_notifications = ns \<rparr>"

definition mapProfileToUser :: "subfetch \<Rightarrow> profile_row \<Rightarrow> error + User" where
  "mapProfileToUser sub profile =
     try_catch
       (case sub (pr_id profile) of (badgesQ, certsQ, notifsQ) \<Rightarrow>
          (case resolved badgesQ of Inl e \<Rightarrow> Inl e | Inr badgesRes \<Rightarrow>
          (case resolved certsQ of Inl e \<Rightarrow> Inl e | Inr certsRes \<Rightarrow>
          (case resolved notifsQ of Inl e \<Rightarrow> Inl e | Inr notifsRes \<Rightarrow>
             Inr (profileUser profile
                    (map mapBadge (data_or_empty badgesRes))
                    (map mapCertificate (data_or_empty certsRes))
                    (map mapNotification (data_or_empty notifsRes)))))))
       (\<lambda>e. Inr (profileUser profile [] [] []))"

text \<open>
  \<^verbatim>\<open>getCurrentUser\<close>. The first argument is the answer of \<^verbatim>\<open>auth.getSession()\<close>: its
  \<^verbatim>\<open>data\<close> holds the id of the session's user, if there is a session; destructuring a missing
  \<^verbatim>\<open>data\<close> is a TypeError, caught like every other exception of the body. The second is the
  answer to the \<^verbatim>\<open>.single()\<close> profile query for that id.
\<close>

definition typeError :: error where
  "typeError = ErrObject (Some ''TypeError'') None ''{}''"

definition getCurrentUser ::
  "string option awaited \<Rightarrow> (string \<Rightarrow> profile_row awaited) \<Rightarrow> subfetch
     \<Rightarrow> error + User option" where
  "getCurrentUser sessionQ profileQ sub =
     (case (case resolved sessionQ of Inl e \<Rightarrow> Inl e
            | Inr (d, err) \<Rightarrow> (case d of None \<Rightarrow> Inl typeError | Some session \<Rightarrow> Inr session)) of
        Inl e \<Rightarrow> Inr None
      | Inr None \<Rightarrow> Inr None
      | Inr (Some uid) \<Rightarrow>
          (case resolved (profileQ uid) of Inl e \<Rightarrow> Inr None
           | Inr (profile, err) \<Rightarrow>
               (case (err, profile) of
                  (None, Some pr) \<Rightarrow>
                     (case mapProfileToUser sub pr of Inl e \<Rightarrow> Inl e | Inr u \<Rightarrow> Inr (Some u))
                | _ \<Rightarrow> Inr None)))"

text \<open>
  \<^verbatim>\<open>getUsers\<close>: \<^verbatim>\<open>profiles.map\<close> on a missing \<^verbatim>\<open>data\<close> is a TypeError inside the
  \<^verbatim>\<open>try\<close>; the \<^verbatim>\<open>Promise.all\<close> of the mapped profiles is returned without \<^verbatim>\<open>await\<close>,
  outside the reach of the \<^verbatim>\<open>catch\<close>.
\<close>

definition getUsers :: "profile_row list awaited \<Rightarrow> subfetch \<Rightarrow> error + User list" where
  "getUsers profilesQ sub =
     (case (case await_checked profilesQ of Inl e \<Rightarrow> Inl e
            | Inr None \<Rightarrow> Inl typeError
            | Inr (Some profiles) \<Rightarrow> Inr profiles) of
        Inl e \<Rightarrow> Inr []
      | Inr profiles \<Rightarrow> promise_all (map (mapProfileToUser sub) profiles))"

definition unknown_or :: "string option \<Rightarrow> string" where
  "unknown_or n = (case truthy n of None \<Rightarrow> ''Unknown'' | Some m \<Rightarrow> m)"

definition mapComment :: "comment_row \<Rightarrow> Comment" where
  "mapComment c =
     \<lparr> cm_id = cmr_id c, cm_userId = cmr_user_id c,
       cm_userName = (case cmr_profiles c of None \<Rightarrow> ''Unknown''
                      | Some pf \<Rightarrow> unknown_or (fst pf)),
       cm_userAvatar = (case cmr_profiles c of None \<Rightarrow> None | Some pf \<Rightarrow> snd pf),
       cm_content = cmr_content c, cm_createdAt = cmr_created_at c \<rparr>"

definition mapParticipant :: "profile_ref \<Rightarrow> Participant" where
  "mapParticipant p = \<lparr> p_id = pf_id p, p_name = pf_name p, p_email = pf_email p,
                        p_avatarUrl = pf_avatar_url p \<rparr>"

definition mapWorkshop :: "workshop_row \<Rightarrow> Workshop" where
  "mapWorkshop w =
     \<lparr> w_id = wr_id w, w_title = wr_title w, w_description = wr_description w,
       w_date = wr_date w, w_organization = wr_organization w,
       w_bannerUrl = wr_banner_url w, w_badgeUrl = wr_badge_url w,
       w_certificateUrl = wr_certificate_url w,
       w_limit = (case wr_participant_limit w of None \<Rightarrow> 0 | Some n \<Rightarrow> n),
       w_participants =
         map mapParticipant
           (List.map_filter (\<lambda>p. p) (wr_workshop_participants w)),
       w_comments = map mapComment (wr_comments w) \<rparr>"

definition getWorkshops :: "workshop_row list awaited \<Rightarrow> error + Workshop list" where
  "getWorkshops workshopsQ =
     try_catch
       (case await_checked workshopsQ of Inl e \<Rightarrow> Inl e
        | Inr workshops \<Rightarrow> Inr (map mapWorkshop (data_or_empty (workshops, None))))
       (\<lambda>e. Inr [])"

record announcement_row =
  ar_id :: string
  ar_title :: string
  ar_content :: string
  ar_image_url :: "string option"
  ar_organization :: Organization
  ar_author_id :: string
  ar_created_at :: string
  ar_profiles :: "(string option \<times> string option \<times> Role option) option"
  ar_announcement_comments :: "comment_row list"
  ar_announcement_likes :: "string list"

definition mapAnnouncement :: "announcement_row \<Rightarrow> Announcement" where
  "mapAnnouncement a =
     \<lparr> a_id = ar_id a, a_title = ar_title a, a_content = ar_content a,
       a_imageUrl = ar_image_url a, a_organization = ar_organization a,
       a_authorId = ar_author_id a,
       a_authorName = (case ar_profiles a of None \<Rightarrow> ''Unknown''
                       | Some pf \<Rightarrow> unknown_or (fst pf)),
       a_authorRole = (case ar_profiles a of None \<Rightarrow> MEMBER
                       | Some pf \<Rightarrow> (case snd (snd pf) of None \<Rightarrow> MEMBER | Some r \<Rightarrow> r)),
       a_authorAvatar = (case ar_profiles a of None \<Rightarrow> None | Some pf \<Rightarrow> fst (snd pf)),
       a_likes = ar_announcement_likes a,
       a_comments = map mapComment (ar_announcement_comments a),
       a_createdAt = ar_created_at a \<rparr>"

text \<open>
  \<^verbatim>\<open>getAnnouncements(org)\<close>: the argument is the answer to the query built for \<open>org\<close>
  (all announcements, or those of one organization, newest first).
\<close>

definition getAnnouncements :: "announcement_row list awaited \<Rightarrow> error + Announcement list" where
  "getAnnouncements announcementsQ =
     try_catch
       (case await_checked announcementsQ of Inl e \<Rightarrow> Inl e
        | Inr d \<Rightarrow> Inr (map mapAnnouncement (data_or_empty (d, None))))
       (\<lambda>e. Inr [])"

section \<open>Writes (storageService)\<close>

text \<open>
  An asynchronous operation that runs in a state: its result, \<open>Inl e\<close> when it throws \<open>e\<close>,
  and the state it leaves. \<open>andThen\<close> is the sequencing of two awaited calls inside one
  \<^verbatim>\<open>try\<close> block: the second does not start when the first throws.
\<close>

type_synonym outcome = "(error + unit) \<times> world"

definition andThen :: "outcome \<Rightarrow> (world \<Rightarrow> outcome) \<Rightarrow> outcome" where
  "andThen r f = (case r of (Inl e, s) \<Rightarrow> (Inl e, s) | (Inr u, s) \<Rightarrow> f s)"

text \<open>A query followed by \<^verbatim>\<open>if (error) throw error;\<close>\<close>

definition query_checked :: "backend \<Rightarrow> request \<Rightarrow> world \<Rightarrow> outcome" where
  "query_checked bk q s =
     (case send bk q s of (r, s1) \<Rightarrow>
        (case await_checked r of Inl e \<Rightarrow> (Inl e, s1) | Inr d \<Rightarrow> (Inr (), s1)))"

text \<open>A query that is only awaited.\<close>

definition query_dropped :: "backend \<Rightarrow> request \<Rightarrow> world \<Rightarrow> outcome" where
  "query_dropped bk q s = (case send bk q s of (r, s1) \<Rightarrow> (await_dropped r, s1))"

definition saveUser :: "backend \<Rightarrow> User \<Rightarrow> world \<Rightarrow> outcome" where
  "saveUser bk user s =
     query_checked bk
       (UpdateProfile (u_id user)
          \<lparr> pu_name = u_name user, pu_email = u_email user, pu_role = u_role user,
            pu_officer_org = u_officerOrg user, pu_avatar_url = u_avatarUrl user \<rparr>) s"

definition joinWorkshop :: "backend \<Rightarrow> string \<Rightarrow> string \<Rightarrow> world \<Rightarrow> outcome" where
  "joinWorkshop bk workshopId userId s =
     query_checked bk (InsertParticipant workshopId userId) s"

definition toggleAnnouncementLike ::
  "backend \<Rightarrow> string \<Rightarrow> string \<Rightarrow> bool \<Rightarrow> world \<Rightarrow> outcome" where
  "toggleAnnouncementLike bk announcementId userId isLiked s =
     (if isLiked then query_dropped bk (DeleteLike announcementId userId) s
      else query_dropped bk (InsertLike announcementId userId) s)"

definition sendNotification ::
  "backend \<Rightarrow> string \<Rightarrow> string \<Rightarrow> string \<Rightarrow> NotificationType \<Rightarrow> world \<Rightarrow> outcome" where
  "sendNotification bk userId title message type s =
     query_dropped bk
       (InsertNotification
          \<lparr> ni_user_id = userId, ni_title = title, ni_message = message, ni_type = type,
            ni_is_read = False \<rparr>) s"

text \<open>The argument objects of \<^verbatim>\<open>issueBadge\<close> and \<^verbatim>\<open>issueCertificate\<close>.\<close>

record badge_args =
  ba_userId :: string
  ba_title :: string
  ba_organization :: Organization
  ba_workshopTitle :: string
  ba_issuedAt :: string
  ba_imageUrl :: "string option"

record certificate_args =
  ca_userId :: string
  ca_title :: string
  ca_organization :: Organization
  ca_workshopTitle :: string
  ca_content :: string
  ca_issuedAt :: string
  ca_fileUrl :: "string option"

definition issueBadge :: "backend \<Rightarrow> badge_args \<Rightarrow> world \<Rightarrow> outcome" where
  "issueBadge bk badge s =
     query_dropped bk
       (InsertBadge
          \<lparr> bi_user_id = ba_userId badge, bi_title = ba_title badge,
            bi_organization = ba_organization badge,
            bi_workshop_title = ba_workshopTitle badge, bi_issued_at = ba_issuedAt badge,
            bi_image_url = ba_imageUrl badge \<rparr>) s"

definition issueCertificate :: "backend \<Rightarrow> certificate_args \<Rightarrow> world \<Rightarrow> outcome" where
  "issueCertificate bk cert s =
     query_dropped bk
       (InsertCertificate
          \<lparr> ci_user_id = ca_userId cert, ci_title = ca_title cert,
            ci_organization = ca_organization cert,
            ci_workshop_title = ca_workshopTitle cert, ci_content = ca_content cert,
            ci_issued_at = ca_issuedAt cert, ci_file_url = ca_fileUrl cert \<rparr>) s"

definition revokeAwards :: "backend \<Rightarrow> string \<Rightarrow> string \<Rightarrow> world \<Rightarrow> outcome" where
  "revokeAwards bk userId workshopTitle s =
     andThen (query_dropped bk (DeleteBadges userId workshopTitle) s)
       (query_dropped bk (DeleteCertificates userId workshopTitle))"

section \<open>Workflows (App.tsx)\<close>

definition alert :: "string \<Rightarrow> world \<Rightarrow> world" where
  "alert msg s = s\<lparr> events := events s @ [Alert msg] \<rparr>"

definition setDataTick :: "world \<Rightarrow> world" where
  "setDataTick s = s\<lparr> events := events s @ [Tick] \<rparr>"

definition setSelectedParticipantsEmpty :: "world \<Rightarrow> world" where
  "setSelectedParticipantsEmpty s = s\<lparr> events := events s @ [SelectionCleared] \<rparr>"

fun roleName :: "Role \<Rightarrow> string" where
  "roleName MEMBER = ''MEMBER''"
| "roleName ADMIN = ''ADMIN''"
| "roleName OFFICER = ''OFFICER''"

fun orgName :: "Organization \<Rightarrow> string" where
  "orgName CES = ''CES''"
| "orgName TCC = ''TCC''"
| "orgName ICSO = ''ICSO''"
| "orgName GENERAL = ''GENERAL''"

definition dq :: string where
  "dq = [CHR 0x22]"

definition ap :: string where
  "ap = [CHR 0x27]"

text \<open>\<^verbatim>\<open>isExpired\<close>: the first argument is the clock, \<^verbatim>\<open>new Date().getTime()\<close>.\<close>

definition isExpired :: "int \<Rightarrow> int \<Rightarrow> bool" where
  "isExpired now date = (date < now)"

text \<open>
  \<^verbatim>\<open>handleLike\<close>. \<open>user\<close> is the signed-in user of the view's state, \<open>None\<close> when there is
  none.
\<close>

definition handleLike :: "backend \<Rightarrow> User option \<Rightarrow> string \<Rightarrow> bool \<Rightarrow> world \<Rightarrow> world" where
  "handleLike bk user ident liked s =
     (case user of None \<Rightarrow> s
      | Some u \<Rightarrow>
          (case toggleAnnouncementLike bk ident (u_id u) liked s of
             (Inr r, s1) \<Rightarrow> setDataTick s1
           | (Inl e, s1) \<Rightarrow> alert (''Operation failed: '' @ formatError e) s1))"

text \<open>
  \<^verbatim>\<open>handleJoinWorkshop\<close>. \<open>workshops\<close> is the list the view holds in memory, as the last
  completed \<^verbatim>\<open>loadAll\<close> left it.
\<close>

definition handleJoinWorkshop ::
  "int \<Rightarrow> backend \<Rightarrow> User option \<Rightarrow> Workshop list \<Rightarrow> string \<Rightarrow> world \<Rightarrow> world" where
  "handleJoinWorkshop now bk user workshops wId s =
     (case user of None \<Rightarrow> s
      | Some u \<Rightarrow>
          (case find (\<lambda>item. w_id item = wId) workshops of None \<Rightarrow> s
           | Some w \<Rightarrow>
               if isExpired now (w_date w) then
                 alert ''This workshop has already ended and is no longer accepting registrations.'' s
               else if list_ex (\<lambda>p. p_id p = u_id u) (w_participants w) then
                 alert ''You are already registered for this session!'' s
               else
                 (case andThen (joinWorkshop bk wId (u_id u) s)
                         (sendNotification bk (u_id u) ''Registered!''
                            (''You'' @ ap @ ''ve joined '' @ dq @ w_title w @ dq
                               @ ''. See you there!'') SUCCESS) of
                    (Inr r, s1) \<Rightarrow> setDataTick (alert ''Successfully registered!'' s1)
                  | (Inl e, s1) \<Rightarrow> alert (''Registration failed: '' @ formatError e) s1)))"

text \<open>
  \<^verbatim>\<open>handlePromoteUser\<close> and \<^verbatim>\<open>handleDemoteUser\<close>. \<open>confirm\<close> is the answer of the person at
  the screen to the dialog with the given text.
\<close>

definition handlePromoteUser ::
  "(string \<Rightarrow> bool) \<Rightarrow> backend \<Rightarrow> User option \<Rightarrow> User \<Rightarrow> world \<Rightarrow> world" where
  "handlePromoteUser confirm bk user targetUser s =
     (if map_option u_role user \<noteq> Some ADMIN then s
      else
        (case (if u_role targetUser = MEMBER then Inr (OFFICER, Some GENERAL)
               else if u_role targetUser = OFFICER then
                 (if \<not> confirm ''Promote this Officer to a full Platform Admin?'' then Inl s
                  else Inr (ADMIN, u_officerOrg targetUser))
               else Inl (alert ''User is already an Admin.'' s)) of
           Inl s1 \<Rightarrow> s1
         | Inr (nextRole, nextOrg) \<Rightarrow>
             (case andThen
                     (saveUser bk (targetUser\<lparr> u_role := nextRole, u_officerOrg := nextOrg \<rparr>) s)
                     (\<lambda>s1. sendNotification bk (u_id targetUser) ''Role Upgrade!''
                              (''You have been promoted to '' @ roleName nextRole
                                 @ (case nextOrg of Some org \<Rightarrow> '' for '' @ orgName org
                                    | None \<Rightarrow> []) @ ''.'')
                              SUCCESS (setDataTick s1)) of
                (Inr r, s2) \<Rightarrow> s2
              | (Inl e, s2) \<Rightarrow> alert (''Failed to update role: '' @ formatError e) s2)))"

definition handleDemoteUser ::
  "(string \<Rightarrow> bool) \<Rightarrow> backend \<Rightarrow> User option \<Rightarrow> User \<Rightarrow> world \<Rightarrow> world" where
  "handleDemoteUser confirm bk user targetUser s =
     (if map_option u_role user \<noteq> Some ADMIN then s
      else
        (case (if u_role targetUser = ADMIN then
                 (if \<not> confirm ''Demote this Admin to Officer status?'' then Inl s
                  else Inr (OFFICER, (case u_officerOrg targetUser of None \<Rightarrow> Some GENERAL
                                      | Some org \<Rightarrow> Some org)))
               else if u_role targetUser = OFFICER then
                 (if \<not> confirm
                      ''Demote this Officer to a regular Member? This removes their Org Hub access.''
                  then Inl s
                  else Inr (MEMBER, None))
               else Inl (alert ''User is already at the lowest role.'' s)) of
           Inl s1 \<Rightarrow> s1
         | Inr (nextRole, nextOrg) \<Rightarrow>
             (case andThen
                     (saveUser bk (targetUser\<lparr> u_role := nextRole, u_officerOrg := nextOrg \<rparr>) s)
                     (\<lambda>s1. sendNotification bk (u_id targetUser) ''Role Change''
                              (''Your role has been updated to '' @ roleName nextRole @ ''.'')
                              WARNING (setDataTick s1)) of
                (Inr r, s2) \<Rightarrow> s2
              | (Inl e, s2) \<Rightarrow> alert (''Demote failed: '' @ formatError e) s2)))"

text \<open>
  \<^verbatim>\<open>handleUpdateProfile\<close>, after the form has been read and the avatar uploaded: \<open>newName\<close>
  is the name field of the form and \<open>avatarUrl\<close> the avatar reference the upload step chose
  (the uploaded one, or the previous one).
\<close>

definition handleUpdateProfile ::
  "backend \<Rightarrow> User option \<Rightarrow> string \<Rightarrow> string option \<Rightarrow> world \<Rightarrow> world" where
  "handleUpdateProfile bk user newName avatarUrl s =
     (case user of None \<Rightarrow> s
      | Some u \<Rightarrow>
          (case saveUser bk (u\<lparr> u_name := (if newName = [] then u_name u else newName),
                                u_avatarUrl := avatarUrl \<rparr>) s of
             (Inr r, s1) \<Rightarrow> setDataTick s1
           | (Inl e, s1) \<Rightarrow> alert (''Profile update failed: '' @ formatError e) s1))"

text \<open>
  The three awaited calls of \<^verbatim>\<open>handleIssueAwards\<close>, which the body of the bulk workflow
  repeats word for word with \<^verbatim>\<open>pId\<close> for \<^verbatim>\<open>participant.id\<close>: badge, certificate,
  notification. \<open>issuedAt\<close> is the clock reading \<^verbatim>\<open>new Date().toISOString()\<close>, taken once by
  the caller.
\<close>

definition issueAwardsTo ::
  "string \<Rightarrow> backend \<Rightarrow> string \<Rightarrow> string \<Rightarrow> Workshop \<Rightarrow> world \<Rightarrow> outcome" where
  "issueAwardsTo issuedAt bk userId name workshop s =
     andThen
       (andThen
          (issueBadge bk
             \<lparr> ba_userId = userId, ba_title = w_title workshop @ '' Graduate'',
               ba_organization = w_organization workshop,
               ba_workshopTitle = w_title workshop, ba_issuedAt = issuedAt,
               ba_imageUrl = w_badgeUrl workshop \<rparr> s)
          (issueCertificate bk
             \<lparr> ca_userId = userId,
               ca_title = ''Certificate of Completion - '' @ w_title workshop,
               ca_organization = w_organization workshop,
               ca_workshopTitle = w_title workshop,
               ca_content = ''This certifies that '' @ name
                  @ '' has successfully completed the workshop '' @ w_title workshop
                  @ '' hosted by '' @ orgName (w_organization workshop) @ ''.'',
               ca_issuedAt = issuedAt, ca_fileUrl = w_certificateUrl workshop \<rparr>))
       (sendNotification bk userId ''Awards Granted!''
          (''Congratulations! You'' @ ap @ ''ve received a badge and certificate for ''
             @ w_title workshop @ ''.'') SUCCESS)"

definition handleIssueAwards ::
  "string \<Rightarrow> backend \<Rightarrow> Participant \<Rightarrow> Workshop \<Rightarrow> world \<Rightarrow> world" where
  "handleIssueAwards issuedAt bk participant workshop s =
     (case issueAwardsTo issuedAt bk (p_id participant) (p_name participant) workshop s of
        (Inr r, s1) \<Rightarrow>
           alert (''Awards issued to '' @ p_name participant @ '' successfully!'') s1
      | (Inl e, s1) \<Rightarrow> alert (''Failed to issue awards: '' @ formatError e) s1)"

text \<open>Decimal digits of a number, as a template string prints \<^verbatim>\<open>selectedParticipants.size\<close>.\<close>

definition digit :: "nat \<Rightarrow> char" where
  "digit d = ''0123456789'' ! d"

fun string_of_nat :: "nat \<Rightarrow> string" where
  "string_of_nat n =
     (if n < 10 then [digit n] else string_of_nat (n div 10) @ [digit (n mod 10)])"

declare string_of_nat.simps [simp del]

text \<open>
  The function mapped over the selected ids in \<^verbatim>\<open>handleBulkIssueAwards\<close>: an id that is not
  among the workshop's participants resolves at once.
\<close>

definition bulkItem :: "string \<Rightarrow> backend \<Rightarrow> Workshop \<Rightarrow> string \<Rightarrow> world \<Rightarrow> outcome" where
  "bulkItem issuedAt bk workshop pId s =
     (case find (\<lambda>p. p_id p = pId) (w_participants workshop) of
        None \<Rightarrow> (Inr (), s)
      | Some participant \<Rightarrow> issueAwardsTo issuedAt bk pId (p_name participant) workshop s)"

text \<open>
  \<^verbatim>\<open>ids.map(async ...)\<close> starts every item, and every item runs to its end whatever the
  others do: an item reads nothing that another one writes, and its control flow depends on
  the answers to its own requests only. The items are run here one after the other in the
  order of \<open>ids\<close>, which is one of the schedules of the event loop; the requests each item
  sends and the rows the store keeps are the same under every schedule, up to the order of
  rows and events of different items.
\<close>

fun runAll :: "(world \<Rightarrow> outcome) list \<Rightarrow> world \<Rightarrow> (error + unit) list \<times> world" where
  "runAll [] s = ([], s)"
| "runAll (f # fs) s =
     (case f s of (r, s1) \<Rightarrow> (case runAll fs s1 of (rs, s2) \<Rightarrow> (r # rs, s2)))"

text \<open>
  \<^verbatim>\<open>handleBulkIssueAwards\<close>. \<open>selectedParticipants\<close> is the selection set in insertion
  order, as \<^verbatim>\<open>Array.from\<close> lists it. \<^verbatim>\<open>await Promise.all(...)\<close> throws the rejection of an
  item that threw (the first in the order of \<open>ids\<close> here; the first in time in the browser).
  The spinner flag \<^verbatim>\<open>isBulkIssuing\<close> is not part of the state.
\<close>

definition handleBulkIssueAwards ::
  "(string \<Rightarrow> bool) \<Rightarrow> string \<Rightarrow> backend \<Rightarrow> string option \<Rightarrow> string list
     \<Rightarrow> Workshop list \<Rightarrow> world \<Rightarrow> world" where
  "handleBulkIssueAwards confirm issuedAt bk selectedWorkshopId selectedParticipants workshops s =
     (case selectedWorkshopId of None \<Rightarrow> s
      | Some wid \<Rightarrow>
          if wid = [] \<or> length selectedParticipants = 0 then s
          else
            (case find (\<lambda>w. w_id w = wid) workshops of None \<Rightarrow> s
             | Some workshop \<Rightarrow>
                 if \<not> confirm (''Issue awards to all ''
                                 @ string_of_nat (length selectedParticipants)
                                 @ '' selected participants?'') then s
                 else
                   (let ids = selectedParticipants
                    in case runAll (map (bulkItem issuedAt bk workshop) ids) s of
                         (rs, s1) \<Rightarrow>
                           (case promise_all rs of
                              Inr r \<Rightarrow>
                                setSelectedParticipantsEmpty
                                  (alert (''Successfully issued awards to ''
                                          @ string_of_nat (length selectedParticipants)
                                          @ '' participants!'') s1)
                            | Inl e \<Rightarrow>
                                alert (''Failed to issue some awards: '' @ formatError e) s1))))"

section \<open>The view between two workflows\<close>

text \<open>
  What the store returns for the embedded \<^verbatim>\<open>workshop_participants (profiles (...))\<close> of the
  workshop \<open>wid\<close>: one entry per participation row of that workshop, holding the profile of
  the row's user, or null when there is no such profile.
\<close>

definition nest_participants :: "world \<Rightarrow> string \<Rightarrow> profile_ref option list" where
  "nest_participants s wid =
     map (\<lambda>wp. map_option (\<lambda>r. \<lparr> pf_id = pr_id r, pf_name = pr_name r, pf_email = pr_email r,
                                  pf_avatar_url = pr_avatar_url r \<rparr>)
                           (find (\<lambda>r. pr_id r = snd wp) (t_profiles s)))
         (filter (\<lambda>wp. fst wp = wid) (t_workshop_participants s))"

text \<open>Workshop rows whose embedded participants are those of the store \<open>s\<close>.\<close>

definition reads_from :: "world \<Rightarrow> workshop_row list \<Rightarrow> bool" where
  "reads_from s rows =
     list_all (\<lambda>r. wr_workshop_participants r = nest_participants s (wr_id r)) rows"

text \<open>
  The admin's user table between two clicks. The table is reloaded from the store after every
  change, and a click on a row's Promote or Demote button hands that row's user to the
  handler; saving one's profile hands the signed-in user's own record to \<^verbatim>\<open>saveUser\<close>.
  \<open>stored_user\<close> is the user of a profile row as the role workflows read it: the three
  collections play no part in them.
\<close>

datatype role_op = Promote | Demote | SaveProfile string "string option"

definition stored_user :: "world \<Rightarrow> string \<Rightarrow> User option" where
  "stored_user s uid =
     map_option (\<lambda>r. profileUser r [] [] []) (find (\<lambda>r. pr_id r = uid) (t_profiles s))"

fun role_step ::
  "(string \<Rightarrow> bool) \<Rightarrow> backend \<Rightarrow> User option \<Rightarrow> world \<Rightarrow> (role_op \<times> string) \<Rightarrow> world" where
  "role_step confirm bk admin s (Promote, uid) =
     (case stored_user s uid of None \<Rightarrow> s
      | Some targetUser \<Rightarrow> handlePromoteUser confirm bk admin targetUser s)"
| "role_step confirm bk admin s (Demote, uid) =
     (case stored_user s uid of None \<Rightarrow> s
      | Some targetUser \<Rightarrow> handleDemoteUser confirm bk admin targetUser s)"
| "role_step confirm bk admin s (SaveProfile newName avatarUrl, uid) =
     handleUpdateProfile bk (stored_user s uid) newName avatarUrl s"

definition role_steps ::
  "(string \<Rightarrow> bool) \<Rightarrow> backend \<Rightarrow> User option \<Rightarrow> (role_op \<times> string) list \<Rightarrow> world \<Rightarrow> world" where
  "role_steps confirm bk admin ops s = foldl (role_step confirm bk admin) s ops"

text \<open>
  The invariant of the data model as the specification words it, and the one the role
  workflows keep.
\<close>

definition org_iff_officer :: "profile_row \<Rightarrow> bool" where
  "org_iff_officer r = ((pr_officer_org r \<noteq> None) = (pr_role r = OFFICER))"

definition org_fits_role :: "profile_row \<Rightarrow> bool" where
  "org_fits_role r =
     (case pr_role r of OFFICER \<Rightarrow> pr_officer_org r \<noteq> None
      | MEMBER \<Rightarrow> pr_officer_org r = None
      | ADMIN \<Rightarrow> True)"

section \<open>Reading a trace\<close>

text \<open>The events a workflow added to the trace, and the requests among them, in order.\<close>

definition new_events :: "world \<Rightarrow> world \<Rightarrow> event list" where
  "new_events s s' = drop (length (events s)) (events s')"

fun sent_requests :: "event list \<Rightarrow> request list" where
  "sent_requests [] = []"
| "sent_requests (Sent q # es) = q # sent_requests es"
| "sent_requests (e # es) = sent_requests es"

fun alerts :: "event list \<Rightarrow> string list" where
  "alerts [] = []"
| "alerts (Alert m # es) = m # alerts es"
| "alerts (e # es) = alerts es"

text \<open>The profile update \<^verbatim>\<open>saveUser\<close> sends for a user whose role and organization are set anew.\<close>

definition role_update :: "User \<Rightarrow> Role \<Rightarrow> Organization option \<Rightarrow> request" where
  "role_update t r org =
     UpdateProfile (u_id t)
       \<lparr> pu_name = u_name t, pu_email = u_email t, pu_role = r, pu_officer_org = org,
         pu_avatar_url = u_avatarUrl t \<rparr>"

text \<open>
  A workflow that took \<open>s\<close> to \<open>s'\<close> wrote role \<open>r\<close> and organization \<open>org\<close> for the user
  \<open>t\<close>: the first request it sent is that profile update, any further request is the
  notification, and the profile rows of \<open>t\<close> hold the new role and organization if the store
  served the update and are untouched if it did not.
\<close>

definition writes_role ::
  "backend \<Rightarrow> User \<Rightarrow> Role \<Rightarrow> Organization option \<Rightarrow> world \<Rightarrow> world \<Rightarrow> bool" where
  "writes_role bk t r org s s' =
     ((case sent_requests (new_events s s') of
         [] \<Rightarrow> False
       | q # rest \<Rightarrow> q = role_update t r org
                      \<and> list_all (\<lambda>q'. case q' of InsertNotification n \<Rightarrow> ni_user_id n = u_id t
                                           | _ \<Rightarrow> False) rest)
      \<and> t_profiles s' =
          (if served (bk (role_update t r org))
           then map (\<lambda>row. if pr_id row = u_id t
                            then row\<lparr> pr_name := u_name t, pr_email := u_email t, pr_role := r,
                                      pr_officer_org := org, pr_avatar_url := u_avatarUrl t \<rparr>
                            else row) (t_profiles s)
           else t_profiles s))"

text \<open>The users the badge inserts among some requests are for, in order.\<close>

fun badge_users :: "request list \<Rightarrow> string list" where
  "badge_users [] = []"
| "badge_users (InsertBadge b # qs) = bi_user_id b # badge_users qs"
| "badge_users (q # qs) = badge_users qs"

text \<open>The rows of a user's awards for a workshop title, which \<^verbatim>\<open>revokeAwards\<close> deletes.\<close>

definition badge_of :: "string \<Rightarrow> string \<Rightarrow> badge_insert \<Rightarrow> bool" where
  "badge_of uid title b = (bi_user_id b = uid \<and> bi_workshop_title b = title)"

definition certificate_of :: "string \<Rightarrow> string \<Rightarrow> certificate_insert \<Rightarrow> bool" where
  "certificate_of uid title c = (ci_user_id c = uid \<and> ci_workshop_title c = title)"

text \<open>A profile row after an update that sets the role and organization of the user \<open>t\<close>.\<close>

definition set_row :: "User \<Rightarrow> Role \<Rightarrow> Organization option \<Rightarrow> profile_row \<Rightarrow> profile_row" where
  "set_row t r org row =
     (if pr_id row = u_id t
      then row\<lparr> pr_name := u_name t, pr_email := u_email t, pr_role := r,
                pr_officer_org := org, pr_avatar_url := u_avatarUrl t \<rparr>
      else row)"

section \<open>Reading an answer of the store\<close>

fun rejects :: "'a awaited \<Rightarrow> bool" where
  "rejects (Rejects e) = True"
| "rejects (Resolves d err) = False"

text \<open>The rows an answer carries: none when it carries an error without data, or rejects.\<close>

fun rows_of :: "'a list awaited \<Rightarrow> 'a list" where
  "rows_of (Resolves d err) = (case d of None \<Rightarrow> [] | Some rows \<Rightarrow> rows)"
| "rows_of (Rejects e) = []"

text \<open>
  A request of an award workflow that carries the workflow's timestamp and the workshop's
  title wherever it has such columns.
\<close>

definition award_request_ok :: "string \<Rightarrow> Workshop \<Rightarrow> string list \<Rightarrow> request \<Rightarrow> bool" where
  "award_request_ok issuedAt w uids q =
     (case q of
        InsertBadge b \<Rightarrow> bi_issued_at b = issuedAt \<and> bi_workshop_title b = w_title w
                          \<and> bi_user_id b \<in> set uids
      | InsertCertificate c \<Rightarrow> ci_issued_at c = issuedAt \<and> ci_workshop_title c = w_title w
                                \<and> ci_user_id c \<in> set uids
      | InsertNotification n \<Rightarrow> ni_user_id n \<in> set uids
      | _ \<Rightarrow> False)"

text \<open>
  The three requests of an award sequence for the user \<open>uid\<close>, written out: what
  \<^verbatim>\<open>issueBadge\<close>, \<^verbatim>\<open>issueCertificate\<close> and \<^verbatim>\<open>sendNotification\<close> make of the arguments the
  award workflows pass them (lemma \<open>issueAwardsTo_queries\<close>).
\<close>

definition badge_request :: "string \<Rightarrow> string \<Rightarrow> Workshop \<Rightarrow> request" where
  "badge_request issuedAt uid w =
     InsertBadge \<lparr> bi_user_id = uid, bi_title = w_title w @ '' Graduate'',
                   bi_organization = w_organization w, bi_workshop_title = w_title w,
                   bi_issued_at = issuedAt, bi_image_url = w_badgeUrl w \<rparr>"

definition certificate_request :: "string \<Rightarrow> string \<Rightarrow> string \<Rightarrow> Workshop \<Rightarrow> request" where
  "certificate_request issuedAt uid name w =
     InsertCertificate
       \<lparr> ci_user_id = uid, ci_title = ''Certificate of Completion - '' @ w_title w,
         ci_organization = w_organization w, ci_workshop_title = w_title w,
         ci_content = ''This certifies that '' @ name
            @ '' has successfully completed the workshop '' @ w_title w
            @ '' hosted by '' @ orgName (w_organization w) @ ''.'',
         ci_issued_at = issuedAt, ci_file_url = w_certificateUrl w \<rparr>"

definition notification_request :: "string \<Rightarrow> Workshop \<Rightarrow> request" where
  "notification_request uid w =
     InsertNotification
       \<lparr> ni_user_id = uid, ni_title = ''Awards Granted!'',
         ni_message = ''Congratulations! You'' @ ap
            @ ''ve received a badge and certificate for '' @ w_title w @ ''.'',
         ni_type = SUCCESS, ni_is_read = False \<rparr>"

text \<open>The requests of that sequence which are sent: up to the first that rejects.\<close>

definition sequence_sent :: "backend \<Rightarrow> string \<Rightarrow> string \<Rightarrow> string \<Rightarrow> Workshop \<Rightarrow> request list" where
  "sequence_sent bk issuedAt uid name w =
     (if rejects (bk (badge_request issuedAt uid w)) then [badge_request issuedAt uid w]
      else if rejects (bk (certificate_request issuedAt uid name w))
      then [badge_request issuedAt uid w, certificate_request issuedAt uid name w]
      else [badge_request issuedAt uid w, certificate_request issuedAt uid name w,
            notification_request uid w])"

text \<open>
  The requests one item of the bulk workflow sends: none for an id that is not among the
  workshop's participants, the award sequence otherwise.
\<close>

definition item_sent :: "backend \<Rightarrow> string \<Rightarrow> Workshop \<Rightarrow> string \<Rightarrow> request list" where
  "item_sent bk issuedAt w pId =
     (case find (\<lambda>p. p_id p = pId) (w_participants w) of
        None \<Rightarrow> []
      | Some participant \<Rightarrow> sequence_sent bk issuedAt pId (p_name participant) w)"

text \<open>An award row that carries the given timestamp and the title of the given workshop.\<close>

definition stamped_badge :: "string \<Rightarrow> Workshop \<Rightarrow> badge_insert \<Rightarrow> bool" where
  "stamped_badge issuedAt w b = (bi_issued_at b = issuedAt \<and> bi_workshop_title b = w_title w)"

definition stamped_certificate :: "string \<Rightarrow> Workshop \<Rightarrow> certificate_insert \<Rightarrow> bool" where
  "stamped_certificate issuedAt w c =
     (ci_issued_at c = issuedAt \<and> ci_workshop_title c = w_title w)"

section \<open>Sample data\<close>

definition ex_participants :: "nat \<Rightarrow> Participant list" where
  "ex_participants n =
     map (\<lambda>i. \<lparr> p_id = ''u'' @ string_of_nat i, p_name = ''P'' @ string_of_nat i,
                p_email = ''p@x.org'', p_avatarUrl = None \<rparr>)
         [0 ..< n]"

definition ex_workshop :: "string \<Rightarrow> int \<Rightarrow> Organization \<Rightarrow> nat \<Rightarrow> Workshop" where
  "ex_workshop ident date org n =
     \<lparr> w_id = ident, w_title = ''Intro'', w_description = ''d'', w_date = date,
       w_organization = org, w_bannerUrl = None, w_badgeUrl = None, w_certificateUrl = None,
       w_limit = 0, w_participants = ex_participants n, w_comments = [] \<rparr>"

definition ex_announcement :: "Organization \<Rightarrow> Announcement" where
  "ex_announcement org =
     \<lparr> a_id = ''a'', a_title = ''t'', a_content = ''c'', a_imageUrl = None,
       a_organization = org, a_authorId = ''u1'', a_authorName = ''Ann'',
       a_authorRole = OFFICER, a_authorAvatar = None, a_likes = [], a_comments = [],
       a_createdAt = ''2024-01-01'' \<rparr>"


definition ex_profile :: "string \<Rightarrow> Role \<Rightarrow> Organization option \<Rightarrow> profile_row" where
  "ex_profile ident r org =
     \<lparr> pr_id = ident, pr_name = ''N'' @ ident, pr_email = ident @ ''@x.org'', pr_role = r,
       pr_officer_org = org, pr_avatar_url = None, pr_created_at = 0 \<rparr>"

definition ex_user :: "string \<Rightarrow> Role \<Rightarrow> Organization option \<Rightarrow> User" where
  "ex_user ident r org = profileUser (ex_profile ident r org) [] [] []"

definition ex_world :: "profile_row list \<Rightarrow> world" where
  "ex_world rows =
     \<lparr> t_profiles = rows, t_workshop_participants = [], t_announcement_likes = [],
       t_notifications = [], t_badges = [], t_certificates = [], events = [] \<rparr>"

text \<open>A store that serves every request, and a person who accepts every dialog.\<close>

definition serve_all :: backend where
  "serve_all q = Resolves None None"

definition yes :: "string \<Rightarrow> bool" where
  "yes prompt = True"

definition ex_likes :: world where
  "ex_likes = (ex_world [])\<lparr> t_announcement_likes := [(''a1'', ''u1''), (''a1'', ''u2'')] \<rparr>"

definition ex_error :: error where
  "ex_error = ErrObject (Some ''permission denied'') None ''{}''"

text \<open>An answer \<^verbatim>\<open>{ data: null, error }\<close>, and an answer with rows.\<close>

definition answer_error :: "'a awaited" where
  "answer_error = Resolves None (Some ex_error)"

definition answer_rows :: "'a list \<Rightarrow> 'a list awaited" where
  "answer_rows xs = Resolves (Some xs) None"

definition ex_certificate_row :: certificate_row where
  "ex_certificate_row =
     \<lparr> cr_id = ''c1'', cr_title = ''Certificate of Completion - Intro'', cr_organization = CES,
       cr_workshop_title = ''Intro'', cr_content = ''This certifies ...'',
       cr_issued_at = ''2024-05-01T10:00:00.000Z'', cr_file_url = None \<rparr>"

text \<open>The badge fetch fails, the certificate fetch returns a row, there are no notifications.\<close>

definition ex_subfetch :: subfetch where
  "ex_subfetch uid = (answer_error, answer_rows [ex_certificate_row], answer_rows [])"

text \<open>A store that answers the badge insert for one user with an error and serves the rest.\<close>

definition refuse_badge_of :: "string \<Rightarrow> backend" where
  "refuse_badge_of uid q =
     (case q of
        InsertBadge b \<Rightarrow> if bi_user_id b = uid then answer_error else Resolves None None
      | _ \<Rightarrow> Resolves None None)"

definition ex_badge_args :: badge_args where
  "ex_badge_args =
     \<lparr> ba_userId = ''u0'', ba_title = ''Intro Graduate'', ba_organization = CES,
       ba_workshopTitle = ''Intro'', ba_issuedAt = ''2024-05-01T10:00:00.000Z'',
       ba_imageUrl = None \<rparr>"

definition ex_participant :: Participant where
  "ex_participant = \<lparr> p_id = ''u0'', p_name = ''P0'', p_email = ''p@x.org'', p_avatarUrl = None \<rparr>"

text \<open>The workshop row a reload returns once the user u9 has joined.\<close>

definition ex_workshop_row :: workshop_row where
  "ex_workshop_row =
     \<lparr> wr_id = ''w1'', wr_title = ''Intro'', wr_description = ''d'', wr_date = 10,
       wr_organization = CES, wr_banner_url = None, wr_badge_url = None,
       wr_certificate_url = None, wr_participant_limit = None,
       wr_workshop_participants =
         [Some \<lparr> pf_id = ''u9'', pf_name = ''Nu9'', pf_email = ''u9@x.org'',
                  pf_avatar_url = None \<rparr>],
       wr_comments = [] \<rparr>"

section \<open>Properties\<close>

subsection \<open>The stable sort\<close>

lemma mset_insert_js: "mset (insert_js cmp x xs) = add_mset x (mset xs)"
  by (induction xs) auto

lemma mset_sort_js: "mset (sort_js cmp xs) = mset xs"
  by (induction xs) (auto simp: mset_insert_js)

lemma set_sort_js: "set (sort_js cmp xs) = set xs"
  using mset_sort_js [of cmp xs] by (metis set_mset_mset)


text \<open>
  A comparator that orders by an integer key: the result is ascending in the key, and
  elements with equal keys keep their order.
\<close>

lemma sorted_insert_js:
  fixes k :: "'a \<Rightarrow> int"
  assumes "\<And>a b. (cmp a b \<le> 0) = (k a \<le> k b)"
  shows "sorted (map k xs) \<Longrightarrow> sorted (map k (insert_js cmp x xs))"
proof (induction xs)
  case Nil
  then show ?case by simp
next
  case (Cons y ys)
  have "set (insert_js cmp x ys) = insert x (set ys)"
    using mset_insert_js [of cmp x ys] by (metis set_mset_add_mset_insert set_mset_mset)
  with Cons assms show ?case by auto
qed

lemma sorted_sort_js:
  fixes k :: "'a \<Rightarrow> int"
  assumes "\<And>a b. (cmp a b \<le> 0) = (k a \<le> k b)"
  shows "sorted (map k (sort_js cmp xs))"
  by (induction xs) (auto intro: sorted_insert_js [OF assms])

lemma filter_insert_js:
  fixes k :: "'a \<Rightarrow> int"
  assumes "\<And>a b. (cmp a b \<le> 0) = (k a \<le> k b)"
  shows "sorted (map k xs) \<Longrightarrow>
         filter (\<lambda>y. k y = v) (insert_js cmp x xs) = filter (\<lambda>y. k y = v) (x # xs)"
proof (induction xs)
  case Nil
  then show ?case by simp
next
  case (Cons y ys)
  show ?case
  proof (cases "cmp x y \<le> 0")
    case True
    then show ?thesis by simp
  next
    case False
    then have lt: "k y < k x" using assms [of x y] by simp
    from Cons.prems have "sorted (map k ys)" by simp
    then have IH: "filter (\<lambda>y. k y = v) (insert_js cmp x ys) = filter (\<lambda>y. k y = v) (x # ys)"
      by (rule Cons.IH)
    show ?thesis
    proof (cases "k x = v")
      case True
      with lt have "k y \<noteq> v" by simp
      with False IH show ?thesis by simp
    next
      case F2: False
      with False IH show ?thesis by simp
    qed
  qed
qed

lemma stable_sort_js:
  fixes k :: "'a \<Rightarrow> int"
  assumes "\<And>a b. (cmp a b \<le> 0) = (k a \<le> k b)"
  shows "filter (\<lambda>y. k y = v) (sort_js cmp xs) = filter (\<lambda>y. k y = v) xs"
proof (induction xs)
  case Nil
  then show ?case by simp
next
  case (Cons x xs)
  have "filter (\<lambda>y. k y = v) (insert_js cmp x (sort_js cmp xs))
        = filter (\<lambda>y. k y = v) (x # sort_js cmp xs)"
    by (rule filter_insert_js [OF assms]) (rule sorted_sort_js [OF assms])
  with Cons show ?case by simp
qed

subsection \<open>Engagement scores\<close>

lemma foldl_add_sum:
  "foldl (\<lambda>acc w. acc + f w) a xs = (a::nat) + sum_list (map f xs)"
  by (induction xs arbitrary: a) auto

lemma count_list_filter: "count_list (map f xs) v = length (filter (\<lambda>x. f x = v) xs)"
  by (induction xs) auto

lemma byScoreDesc_key: "(byScoreDesc a b \<le> 0) = (- int (s_score a) \<le> - int (s_score b))"
  by (simp add: byScoreDesc_def)

lemma orgStat_fields:
  "s_name (orgStat ws as org) = org"
  "s_workshops (orgStat ws as org) = count_list (map w_organization ws) org"
  "s_announcements (orgStat ws as org) = count_list (map a_organization as) org"
  "s_participants (orgStat ws as org)
     = sum_list (map (\<lambda>w. length (w_participants w)) (filter (\<lambda>w. w_organization w = org) ws))"
  "s_score (orgStat ws as org)
     = 5 * s_workshops (orgStat ws as org) + 2 * s_announcements (orgStat ws as org)
       + 1 * s_participants (orgStat ws as org)"
  by (simp_all add: orgStat_def Let_def foldl_add_sum count_list_filter)

lemma leaderboard_desc: "sorted_wrt (\<lambda>a b. s_score b \<le> s_score a) (leaderboard an)"
proof -
  have "sorted (map (\<lambda>st. - int (s_score st)) (leaderboard an))"
    unfolding leaderboard_def by (rule sorted_sort_js) (rule byScoreDesc_key)
  then show ?thesis
    by (simp add: sorted_map sorted_wrt_iff_nth_less)
qed

text \<open>
  C1. For all workshops, announcements and users, the analytics hold one entry for each of
  CES, TCC, ICSO and GENERAL, in that order; an entry counts the workshops and the
  announcements of its organization and sums the participants of those workshops, and its
  score is exactly 5 times the workshops plus 2 times the announcements plus 1 times the
  participants. The leaderboard is a rearrangement of the entries in descending order of
  score, and the entry flagged as most active is the first of it: no entry has a higher score.
\<close>

theorem analytics_engagement_score:
  "(let an = analyticsData workshops announcements users thirtyDaysAgo in
     map s_name (an_perOrg an) = [CES, TCC, ICSO, GENERAL]
     \<and> (\<forall>st \<in> set (an_perOrg an).
           s_workshops st = count_list (map w_organization workshops) (s_name st)
         \<and> s_announcements st = count_list (map a_organization announcements) (s_name st)
         \<and> s_participants st
             = sum_list (map (\<lambda>w. length (w_participants w))
                             (filter (\<lambda>w. w_organization w = s_name st) workshops))
         \<and> s_score st = 5 * s_workshops st + 2 * s_announcements st + 1 * s_participants st)
     \<and> mset (leaderboard an) = mset (an_perOrg an)
     \<and> sorted_wrt (\<lambda>a b. s_score b \<le> s_score a) (leaderboard an)
     \<and> (\<exists>m rest. leaderboard an = m # rest \<and> an_mostActive an = Some m
           \<and> (\<forall>st \<in> set (an_perOrg an). s_score st \<le> s_score m)))"
proof -
  define an where "an = analyticsData workshops announcements users thirtyDaysAgo"
  have per: "an_perOrg an = map (orgStat workshops announcements) orgs"
    by (simp add: an_def analyticsData_def Let_def)
  have names: "map s_name (an_perOrg an) = [CES, TCC, ICSO, GENERAL]"
    by (simp add: per orgs_def orgStat_fields(1))
  have fields: "\<forall>st \<in> set (an_perOrg an).
           s_workshops st = count_list (map w_organization workshops) (s_name st)
         \<and> s_announcements st = count_list (map a_organization announcements) (s_name st)
         \<and> s_participants st
             = sum_list (map (\<lambda>w. length (w_participants w))
                             (filter (\<lambda>w. w_organization w = s_name st) workshops))
         \<and> s_score st = 5 * s_workshops st + 2 * s_announcements st + 1 * s_participants st"
  proof
    fix st assume "st \<in> set (an_perOrg an)"
    then obtain org where st: "st = orgStat workshops announcements org"
      by (auto simp: per)
    show "s_workshops st = count_list (map w_organization workshops) (s_name st)
         \<and> s_announcements st = count_list (map a_organization announcements) (s_name st)
         \<and> s_participants st
             = sum_list (map (\<lambda>w. length (w_participants w))
                             (filter (\<lambda>w. w_organization w = s_name st) workshops))
         \<and> s_score st = 5 * s_workshops st + 2 * s_announcements st + 1 * s_participants st"
      unfolding st using orgStat_fields [of workshops announcements org] by simp
  qed
  have perm: "mset (leaderboard an) = mset (an_perOrg an)"
    by (simp add: leaderboard_def mset_sort_js)
  have desc: "sorted_wrt (\<lambda>a b. s_score b \<le> s_score a) (leaderboard an)"
    by (rule leaderboard_desc)
  have "leaderboard an \<noteq> []"
    using perm per by (auto simp: orgs_def)
  then obtain m rest where mr: "leaderboard an = m # rest"
    by (cases "leaderboard an") auto
  have most: "an_mostActive an = Some m"
    using mr by (simp add: an_def analyticsData_def Let_def leaderboard_def)
  have top: "\<forall>st \<in> set (an_perOrg an). s_score st \<le> s_score m"
  proof
    fix st assume "st \<in> set (an_perOrg an)"
    then have "st \<in> set (leaderboard an)"
      using perm by (metis set_mset_mset)
    with desc mr show "s_score st \<le> s_score m" by auto
  qed
  from names fields perm desc mr most top show ?thesis
    unfolding an_def [symmetric] Let_def by blast
qed

text \<open>
  An organization with 2 workshops, 3 announcements and 10 participants in all scores 26 and
  leads the board.
\<close>

theorem analytics_engagement_score_witness:
  "map (\<lambda>st. (s_name st, s_workshops st, s_announcements st, s_participants st, s_score st))
       (an_perOrg (analyticsData [ex_workshop ''w1'' 10 CES 4, ex_workshop ''w2'' 20 CES 6]
                     [ex_announcement CES, ex_announcement CES, ex_announcement CES] [] 0))
     = [(CES, 2, 3, 10, 26), (TCC, 0, 0, 0, 0), (ICSO, 0, 0, 0, 0), (GENERAL, 0, 0, 0, 0)]
   \<and> map_option s_name
        (an_mostActive (analyticsData [ex_workshop ''w1'' 10 CES 4, ex_workshop ''w2'' 20 CES 6]
                          [ex_announcement CES, ex_announcement CES, ex_announcement CES] [] 0))
     = Some CES"
  using analytics_engagement_score
          [of "[ex_workshop ''w1'' 10 CES 4, ex_workshop ''w2'' 20 CES 6]"
              "[ex_announcement CES, ex_announcement CES, ex_announcement CES]" "[]" 0]
  by (simp add: Let_def analyticsData_def orgs_def orgStat_def ex_workshop_def
        ex_announcement_def ex_participants_def byScoreDesc_def)

subsection \<open>Attendance trend\<close>











lemma chartPoint_x:
  "pt_x (chartPoint fl 600 200 40 maxA n i w) = fl (40 + fl (of_nat (i * 520) / of_nat (n - 1)))"
  by (simp add: chartPoint_def Let_def)










subsection \<open>Role transitions\<close>

lemma events_exec: "events (exec q s) = events s"
  by (cases q) simp_all

lemma profiles_exec:
  "t_profiles (exec q s) =
     (case q of UpdateProfile uid upd \<Rightarrow>
          map (\<lambda>r. if pr_id r = uid
                    then r\<lparr> pr_name := pu_name upd, pr_email := pu_email upd,
                            pr_role := pu_role upd, pr_officer_org := pu_officer_org upd,
                            pr_avatar_url := pu_avatar_url upd \<rparr>
                    else r) (t_profiles s)
      | _ \<Rightarrow> t_profiles s)"
  by (cases q) simp_all

lemma send_events: "events (snd (send bk q s)) = events s @ [Sent q]"
  by (simp add: send_def Let_def events_exec)

lemma send_profiles:
  "t_profiles (snd (send bk q s)) = (if served (bk q) then t_profiles (exec q s) else t_profiles s)"
  by (simp add: send_def Let_def profiles_exec split: request.splits)

lemma new_events_append: "events s' = events s @ es \<Longrightarrow> new_events s s' = es"
  by (simp add: new_events_def)

lemma sent_requests_append: "sent_requests (xs @ ys) = sent_requests xs @ sent_requests ys"
  by (induction xs rule: sent_requests.induct) simp_all

text \<open>The common tail of the two role workflows.\<close>

lemma role_write:
  assumes t': "u_id t' = u_id t" "u_name t' = u_name t" "u_email t' = u_email t"
    "u_avatarUrl t' = u_avatarUrl t" "u_role t' = r" "u_officerOrg t' = org"
  shows "writes_role bk t r org s
     (case andThen (saveUser bk t' s)
             (\<lambda>s1. sendNotification bk (u_id t) title msg ty (setDataTick s1)) of
        (Inr x, s2) \<Rightarrow> s2
      | (Inl e, s2) \<Rightarrow> alert (failmsg @ formatError e) s2)"
proof -
  let ?q = "role_update t r org"
  have sv: "saveUser bk t' s = query_checked bk ?q s"
    by (simp add: saveUser_def role_update_def t')
  show ?thesis
  proof (cases "bk ?q")
    case (Rejects e)
    then show ?thesis
      unfolding sv
      by (simp add: writes_role_def query_checked_def send_def Let_def await_checked_def
          andThen_def alert_def new_events_def)
  next
    case (Resolves d err)
    show ?thesis
    proof (cases err)
      case (Some e)
      with Resolves show ?thesis
        unfolding sv
        by (simp add: writes_role_def query_checked_def send_def Let_def await_checked_def
            andThen_def alert_def new_events_def)
    next
      case None
      with Resolves show ?thesis
        unfolding sv
        by (cases "bk (InsertNotification \<lparr> ni_user_id = u_id t, ni_title = title,
                          ni_message = msg, ni_type = ty, ni_is_read = False \<rparr>)")
           (simp_all add: writes_role_def query_checked_def query_dropped_def send_def Let_def
              await_checked_def await_dropped_def andThen_def alert_def new_events_def
              sendNotification_def setDataTick_def events_exec role_update_def
              split: option.splits)
    qed
  qed
qed

lemma role_transitions:
  assumes admin: "map_option u_role user = Some ADMIN"
  shows
  "(u_role t = MEMBER \<longrightarrow>
      writes_role bk t OFFICER (Some GENERAL) s (handlePromoteUser confirm bk user t s))
 \<and> (u_role t = OFFICER \<and> confirm ''Promote this Officer to a full Platform Admin?'' \<longrightarrow>
      writes_role bk t ADMIN (u_officerOrg t) s (handlePromoteUser confirm bk user t s))
 \<and> (u_role t = ADMIN \<longrightarrow>
      handlePromoteUser confirm bk user t s = alert ''User is already an Admin.'' s)
 \<and> (u_role t = ADMIN \<and> confirm ''Demote this Admin to Officer status?'' \<longrightarrow>
      writes_role bk t OFFICER
        (case u_officerOrg t of None \<Rightarrow> Some GENERAL | Some org \<Rightarrow> Some org) s
        (handleDemoteUser confirm bk user t s))
 \<and> (u_role t = OFFICER
      \<and> confirm ''Demote this Officer to a regular Member? This removes their Org Hub access.''
      \<longrightarrow> writes_role bk t MEMBER None s (handleDemoteUser confirm bk user t s))
 \<and> (u_role t = MEMBER \<longrightarrow>
      handleDemoteUser confirm bk user t s = alert ''User is already at the lowest role.'' s)"
proof (intro conjI impI)
  assume "u_role t = MEMBER"
  then show "writes_role bk t OFFICER (Some GENERAL) s (handlePromoteUser confirm bk user t s)"
    using admin by (simp add: handlePromoteUser_def) (rule role_write, simp_all)
next
  assume "u_role t = OFFICER \<and> confirm ''Promote this Officer to a full Platform Admin?''"
  then show "writes_role bk t ADMIN (u_officerOrg t) s (handlePromoteUser confirm bk user t s)"
    using admin by (simp add: handlePromoteUser_def) (rule role_write, simp_all)
next
  assume "u_role t = ADMIN"
  then show "handlePromoteUser confirm bk user t s = alert ''User is already an Admin.'' s"
    using admin by (simp add: handlePromoteUser_def)
next
  assume "u_role t = ADMIN \<and> confirm ''Demote this Admin to Officer status?''"
  then show "writes_role bk t OFFICER
        (case u_officerOrg t of None \<Rightarrow> Some GENERAL | Some org \<Rightarrow> Some org) s
        (handleDemoteUser confirm bk user t s)"
    using admin by (simp add: handleDemoteUser_def) (rule role_write, simp_all)
next
  assume "u_role t = OFFICER
      \<and> confirm ''Demote this Officer to a regular Member? This removes their Org Hub access.''"
  then show "writes_role bk t MEMBER None s (handleDemoteUser confirm bk user t s)"
    using admin by (simp add: handleDemoteUser_def) (rule role_write, simp_all)
next
  assume "u_role t = MEMBER"
  then show "handleDemoteUser confirm bk user t s = alert ''User is already at the lowest role.'' s"
    using admin by (simp add: handleDemoteUser_def)
qed

text \<open>
  C2. When an admin runs the role workflows on a target user, and accepts the dialog where the
  workflow shows one: promoting a MEMBER writes role OFFICER with organization GENERAL;
  promoting an OFFICER writes role ADMIN and leaves the organization as it was; promoting an
  ADMIN only shows "User is already an Admin." and writes nothing; demoting an ADMIN writes
  role OFFICER, with organization GENERAL if there was none and the previous one otherwise;
  demoting an OFFICER writes role MEMBER and clears the organization; demoting a MEMBER only
  shows "User is already at the lowest role." and writes nothing. Writing means: the profile
  update is the first request sent, only the notification may follow, and the stored profile
  holds the new values whenever the store serves the update.
\<close>

theorem role_state_machine:
  assumes admin: "map_option u_role user = Some ADMIN"
  shows
  "(u_role t = MEMBER \<longrightarrow>
      writes_role bk t OFFICER (Some GENERAL) s (handlePromoteUser confirm bk user t s))
 \<and> (u_role t = OFFICER \<and> confirm ''Promote this Officer to a full Platform Admin?'' \<longrightarrow>
      writes_role bk t ADMIN (u_officerOrg t) s (handlePromoteUser confirm bk user t s))
 \<and> (u_role t = ADMIN \<longrightarrow>
      handlePromoteUser confirm bk user t s = alert ''User is already an Admin.'' s)
 \<and> (u_role t = ADMIN \<and> confirm ''Demote this Admin to Officer status?'' \<longrightarrow>
      writes_role bk t OFFICER
        (case u_officerOrg t of None \<Rightarrow> Some GENERAL | Some org \<Rightarrow> Some org) s
        (handleDemoteUser confirm bk user t s))
 \<and> (u_role t = OFFICER
      \<and> confirm ''Demote this Officer to a regular Member? This removes their Org Hub access.''
      \<longrightarrow> writes_role bk t MEMBER None s (handleDemoteUser confirm bk user t s))
 \<and> (u_role t = MEMBER \<longrightarrow>
      handleDemoteUser confirm bk user t s = alert ''User is already at the lowest role.'' s)"
  using admin by (rule role_transitions)

text \<open>The gates in front of the transitions: a non-admin, or a declined dialog, changes nothing.\<close>

lemma role_gates:
  "map_option u_role user \<noteq> Some ADMIN \<Longrightarrow> handlePromoteUser confirm bk user t s = s"
  "map_option u_role user \<noteq> Some ADMIN \<Longrightarrow> handleDemoteUser confirm bk user t s = s"
  "u_role t = OFFICER \<Longrightarrow> \<not> confirm ''Promote this Officer to a full Platform Admin?''
     \<Longrightarrow> handlePromoteUser confirm bk user t s = s"
  "u_role t = ADMIN \<Longrightarrow> \<not> confirm ''Demote this Admin to Officer status?''
     \<Longrightarrow> handleDemoteUser confirm bk user t s = s"
  "u_role t = OFFICER
     \<Longrightarrow> \<not> confirm ''Demote this Officer to a regular Member? This removes their Org Hub access.''
     \<Longrightarrow> handleDemoteUser confirm bk user t s = s"
  by (simp_all add: handlePromoteUser_def handleDemoteUser_def)

lemma ex_promote_member:
  "t_profiles (handlePromoteUser yes serve_all (Some (ex_user ''a'' ADMIN None))
                 (ex_user ''m'' MEMBER None) (ex_world [ex_profile ''m'' MEMBER None]))
     = [ex_profile ''m'' OFFICER (Some GENERAL)]"
  by (simp add: handlePromoteUser_def ex_user_def profileUser_def ex_profile_def ex_world_def
        saveUser_def query_checked_def send_def serve_all_def await_checked_def andThen_def
        sendNotification_def query_dropped_def await_dropped_def setDataTick_def Let_def)

text \<open>
  An admin promotes a member and an officer and demotes an officer, on a store that serves
  every request.
\<close>

theorem role_state_machine_witness:
  "map_option u_role (Some (ex_user ''a'' ADMIN None)) = Some ADMIN
   \<and> u_role (ex_user ''m'' MEMBER None) = MEMBER
   \<and> writes_role serve_all (ex_user ''m'' MEMBER None) OFFICER (Some GENERAL)
        (ex_world [ex_profile ''m'' MEMBER None])
        (handlePromoteUser yes serve_all (Some (ex_user ''a'' ADMIN None))
           (ex_user ''m'' MEMBER None) (ex_world [ex_profile ''m'' MEMBER None]))
   \<and> u_role (ex_user ''o'' OFFICER (Some TCC)) = OFFICER
   \<and> yes ''Promote this Officer to a full Platform Admin?''
   \<and> writes_role serve_all (ex_user ''o'' OFFICER (Some TCC)) ADMIN (Some TCC)
        (ex_world [ex_profile ''o'' OFFICER (Some TCC)])
        (handlePromoteUser yes serve_all (Some (ex_user ''a'' ADMIN None))
           (ex_user ''o'' OFFICER (Some TCC)) (ex_world [ex_profile ''o'' OFFICER (Some TCC)]))
   \<and> yes ''Demote this Officer to a regular Member? This removes their Org Hub access.''
   \<and> writes_role serve_all (ex_user ''o'' OFFICER (Some TCC)) MEMBER None
        (ex_world [ex_profile ''o'' OFFICER (Some TCC)])
        (handleDemoteUser yes serve_all (Some (ex_user ''a'' ADMIN None))
           (ex_user ''o'' OFFICER (Some TCC)) (ex_world [ex_profile ''o'' OFFICER (Some TCC)]))
   \<and> t_profiles (handlePromoteUser yes serve_all (Some (ex_user ''a'' ADMIN None))
                   (ex_user ''m'' MEMBER None) (ex_world [ex_profile ''m'' MEMBER None]))
        = [ex_profile ''m'' OFFICER (Some GENERAL)]"
proof -
  have a: "map_option u_role (Some (ex_user ''a'' ADMIN None)) = Some ADMIN"
    by (simp add: ex_user_def profileUser_def ex_profile_def)
  have m: "u_role (ex_user ''m'' MEMBER None) = MEMBER"
    and o: "u_role (ex_user ''o'' OFFICER (Some TCC)) = OFFICER"
    and oo: "u_officerOrg (ex_user ''o'' OFFICER (Some TCC)) = Some TCC"
    by (simp_all add: ex_user_def profileUser_def ex_profile_def)
  have y: "yes ''Promote this Officer to a full Platform Admin?''"
    "yes ''Demote this Officer to a regular Member? This removes their Org Hub access.''"
    by (simp_all add: yes_def)
  show ?thesis
    using a m o oo y ex_promote_member
      role_state_machine [OF a, of "ex_user ''m'' MEMBER None" serve_all
         "ex_world [ex_profile ''m'' MEMBER None]" yes]
      role_state_machine [OF a, of "ex_user ''o'' OFFICER (Some TCC)" serve_all
         "ex_world [ex_profile ''o'' OFFICER (Some TCC)]" yes]
    by simp
qed

subsection \<open>Officer organization and role\<close>

lemma writes_role_profiles:
  "writes_role bk t r org s s' \<Longrightarrow>
     t_profiles s' = t_profiles s \<or> t_profiles s' = map (set_row t r org) (t_profiles s)"
  by (auto simp: writes_role_def set_row_def [abs_def] split: if_splits)

lemma profiles_alert: "t_profiles (alert m s) = t_profiles s"
  by (simp add: alert_def)

lemma handlePromoteUser_profiles:
  "t_profiles (handlePromoteUser confirm bk user t s) = t_profiles s
   \<or> (\<exists>org. t_profiles (handlePromoteUser confirm bk user t s)
               = map (set_row t OFFICER (Some org)) (t_profiles s))
   \<or> (\<exists>org. t_profiles (handlePromoteUser confirm bk user t s)
               = map (set_row t ADMIN org) (t_profiles s))"
proof (cases "map_option u_role user = Some ADMIN")
  case False
  then show ?thesis by (simp add: role_gates)
next
  case True
  note sm = role_transitions [OF True, of t bk s confirm]
  show ?thesis
  proof (cases "u_role t")
    case MEMBER
    with sm have "writes_role bk t OFFICER (Some GENERAL) s (handlePromoteUser confirm bk user t s)"
      by simp
    from writes_role_profiles [OF this] show ?thesis by blast
  next
    case ADMIN
    with sm show ?thesis by (simp add: profiles_alert)
  next
    case OFFICER
    show ?thesis
    proof (cases "confirm ''Promote this Officer to a full Platform Admin?''")
      case True
      with OFFICER sm
      have "writes_role bk t ADMIN (u_officerOrg t) s (handlePromoteUser confirm bk user t s)"
        by simp
      from writes_role_profiles [OF this] show ?thesis by blast
    next
      case False
      with OFFICER show ?thesis by (simp add: role_gates)
    qed
  qed
qed

lemma handleDemoteUser_profiles:
  "t_profiles (handleDemoteUser confirm bk user t s) = t_profiles s
   \<or> (\<exists>org. t_profiles (handleDemoteUser confirm bk user t s)
               = map (set_row t OFFICER (Some org)) (t_profiles s))
   \<or> t_profiles (handleDemoteUser confirm bk user t s) = map (set_row t MEMBER None) (t_profiles s)"
proof (cases "map_option u_role user = Some ADMIN")
  case False
  then show ?thesis by (simp add: role_gates)
next
  case True
  note sm = role_transitions [OF True, of t bk s confirm]
  show ?thesis
  proof (cases "u_role t")
    case MEMBER
    with sm show ?thesis by (simp add: profiles_alert)
  next
    case ADMIN
    show ?thesis
    proof (cases "confirm ''Demote this Admin to Officer status?''")
      case True
      with ADMIN sm
      have w: "writes_role bk t OFFICER
             (case u_officerOrg t of None \<Rightarrow> Some GENERAL | Some org \<Rightarrow> Some org) s
             (handleDemoteUser confirm bk user t s)"
        by simp
      obtain org where "(case u_officerOrg t of None \<Rightarrow> Some GENERAL | Some org \<Rightarrow> Some org)
                          = Some org"
        by (cases "u_officerOrg t") auto
      with writes_role_profiles [OF w] show ?thesis by auto
    next
      case False
      with ADMIN show ?thesis by (simp add: role_gates)
    qed
  next
    case OFFICER
    show ?thesis
    proof (cases "confirm ''Demote this Officer to a regular Member? This removes their Org Hub access.''")
      case True
      with OFFICER sm
      have "writes_role bk t MEMBER None s (handleDemoteUser confirm bk user t s)"
        by simp
      from writes_role_profiles [OF this] show ?thesis by blast
    next
      case False
      with OFFICER show ?thesis by (simp add: role_gates)
    qed
  qed
qed

lemma handleUpdateProfile_profiles:
  "t_profiles (handleUpdateProfile bk (Some u) newName avatarUrl s) = t_profiles s
   \<or> (\<exists>u'. u_id u' = u_id u \<and>
         t_profiles (handleUpdateProfile bk (Some u) newName avatarUrl s)
           = map (set_row u' (u_role u) (u_officerOrg u)) (t_profiles s))"
proof -
  let ?u' = "u\<lparr> u_name := (if newName = [] then u_name u else newName), u_avatarUrl := avatarUrl \<rparr>"
  let ?q = "role_update ?u' (u_role u) (u_officerOrg u)"
  have sv: "saveUser bk ?u' s = query_checked bk ?q s"
    by (simp add: saveUser_def role_update_def)
  have "t_profiles (handleUpdateProfile bk (Some u) newName avatarUrl s) = t_profiles s
      \<or> t_profiles (handleUpdateProfile bk (Some u) newName avatarUrl s)
           = map (set_row ?u' (u_role u) (u_officerOrg u)) (t_profiles s)"
    unfolding handleUpdateProfile_def option.case sv
    by (cases "bk ?q")
       (auto simp: query_checked_def send_def Let_def await_checked_def alert_def setDataTick_def
          role_update_def set_row_def [abs_def] split: option.splits)
  then show ?thesis by (metis (no_types, lifting) User.select_convs(1) User.surjective User.update_convs(2) User.update_convs(6))
qed

lemma fits_set_row:
  assumes "list_all org_fits_role rows"
    and "case r of OFFICER \<Rightarrow> org \<noteq> None | MEMBER \<Rightarrow> org = None | ADMIN \<Rightarrow> True"
  shows "list_all org_fits_role (map (set_row t r org) rows)"
  using assms by (auto simp: list_all_iff org_fits_role_def set_row_def split: Role.splits)

lemma stored_user_fits:
  assumes "list_all org_fits_role (t_profiles s)" and "stored_user s uid = Some u"
  shows "case u_role u of OFFICER \<Rightarrow> u_officerOrg u \<noteq> None | MEMBER \<Rightarrow> u_officerOrg u = None
         | ADMIN \<Rightarrow> True"
proof -
  from assms(2) obtain r where f: "find (\<lambda>r. pr_id r = uid) (t_profiles s) = Some r"
    and u: "u = profileUser r [] [] []"
    by (auto simp: stored_user_def)
  from f have "r \<in> set (t_profiles s)" by (auto simp: find_Some_iff)
  with assms(1) have "org_fits_role r" by (simp add: list_all_iff)
  then show ?thesis unfolding u
    by (cases "pr_role r") (simp_all add: profileUser_def org_fits_role_def)
qed

lemma fits_set_row_cases:
  assumes "list_all org_fits_role rows"
  shows "list_all org_fits_role (map (set_row t OFFICER (Some org)) rows)"
    and "list_all org_fits_role (map (set_row t ADMIN org') rows)"
    and "list_all org_fits_role (map (set_row t MEMBER None) rows)"
  using assms by (simp_all add: fits_set_row)

lemma role_step_keeps:
  assumes inv: "list_all org_fits_role (t_profiles s)"
  shows "list_all org_fits_role (t_profiles (role_step confirm bk admin s step))"
proof (cases step)
  case (Pair op uid)
  show ?thesis
  proof (cases op)
    case Promote
    show ?thesis
    proof (cases "stored_user s uid")
      case None
      with Pair Promote inv show ?thesis by simp
    next
      case (Some t)
      from handlePromoteUser_profiles [of confirm bk admin t s] inv
      have "list_all org_fits_role (t_profiles (handlePromoteUser confirm bk admin t s))"
        by (auto simp: fits_set_row_cases)
      with Pair Promote Some show ?thesis by simp
    qed
  next
    case Demote
    show ?thesis
    proof (cases "stored_user s uid")
      case None
      with Pair Demote inv show ?thesis by simp
    next
      case (Some t)
      from handleDemoteUser_profiles [of confirm bk admin t s] inv
      have "list_all org_fits_role (t_profiles (handleDemoteUser confirm bk admin t s))"
        by (auto simp: fits_set_row_cases)
      with Pair Demote Some show ?thesis by simp
    qed
  next
    case (SaveProfile newName avatarUrl)
    show ?thesis
    proof (cases "stored_user s uid")
      case None
      with Pair SaveProfile inv show ?thesis by (simp add: handleUpdateProfile_def)
    next
      case (Some u)
      note fit = stored_user_fits [OF inv Some]
      from handleUpdateProfile_profiles [of bk u newName avatarUrl s] inv fit
      have "list_all org_fits_role (t_profiles (handleUpdateProfile bk (Some u) newName avatarUrl s))"
        by (auto simp: fits_set_row)
      with Pair SaveProfile Some show ?thesis by simp
    qed
  qed
qed

text \<open>
  C4, as the code has it. Whatever sequence of promotions, demotions and profile saves is run,
  by whomever, with whatever answers to the dialogs and from the store: if no stored MEMBER has
  an organization and every stored OFFICER has one, that is still so afterwards. An ADMIN may
  have an organization or none.
\<close>

theorem role_steps_keep_org_fits_role:
  "list_all org_fits_role (t_profiles s) \<Longrightarrow>
   list_all org_fits_role (t_profiles (role_steps confirm bk admin ops s))"
  unfolding role_steps_def
  by (induction ops arbitrary: s) (simp_all add: role_step_keeps)

lemmas eval_defs =
  role_steps_def stored_user_def handlePromoteUser_def handleDemoteUser_def ex_user_def
  profileUser_def ex_profile_def ex_world_def saveUser_def query_checked_def send_def
  serve_all_def await_checked_def andThen_def sendNotification_def query_dropped_def
  await_dropped_def setDataTick_def Let_def yes_def alert_def

text \<open>
  C4, as the specification words it, fails: from a single MEMBER without organization, two
  promotions give an ADMIN whose organization is GENERAL.
\<close>

theorem officer_org_invariant_counterexample:
  "list_all org_iff_officer (t_profiles (ex_world [ex_profile ''m'' MEMBER None]))
   \<and> t_profiles (role_steps yes serve_all (Some (ex_user ''a'' ADMIN None))
                   [(Promote, ''m''), (Promote, ''m'')]
                   (ex_world [ex_profile ''m'' MEMBER None]))
       = [ex_profile ''m'' ADMIN (Some GENERAL)]
   \<and> \<not> list_all org_iff_officer
         (t_profiles (role_steps yes serve_all (Some (ex_user ''a'' ADMIN None))
                        [(Promote, ''m''), (Promote, ''m'')]
                        (ex_world [ex_profile ''m'' MEMBER None])))"
  by (simp add: eval_defs org_iff_officer_def)

text \<open>Promote twice, demote once, save the profile: an OFFICER of GENERAL under a new name.\<close>

theorem role_steps_keep_org_fits_role_witness:
  "list_all org_fits_role (t_profiles (ex_world [ex_profile ''m'' MEMBER None]))
   \<and> list_all org_fits_role
        (t_profiles (role_steps yes serve_all (Some (ex_user ''a'' ADMIN None))
                       [(Promote, ''m''), (Promote, ''m''), (Demote, ''m''),
                        (SaveProfile ''New'' None, ''m'')]
                       (ex_world [ex_profile ''m'' MEMBER None])))
   \<and> t_profiles (role_steps yes serve_all (Some (ex_user ''a'' ADMIN None))
                   [(Promote, ''m''), (Promote, ''m''), (Demote, ''m''),
                    (SaveProfile ''New'' None, ''m'')]
                   (ex_world [ex_profile ''m'' MEMBER None]))
       = [(ex_profile ''m'' OFFICER (Some GENERAL))\<lparr> pr_name := ''New'' \<rparr>]"
proof -
  have h: "list_all org_fits_role (t_profiles (ex_world [ex_profile ''m'' MEMBER None]))"
    by (simp add: ex_world_def ex_profile_def org_fits_role_def)
  have e: "t_profiles (role_steps yes serve_all (Some (ex_user ''a'' ADMIN None))
                   [(Promote, ''m''), (Promote, ''m''), (Demote, ''m''),
                    (SaveProfile ''New'' None, ''m'')]
                   (ex_world [ex_profile ''m'' MEMBER None]))
       = [(ex_profile ''m'' OFFICER (Some GENERAL))\<lparr> pr_name := ''New'' \<rparr>]"
    by (simp add: eval_defs handleUpdateProfile_def)
  from h e role_steps_keep_org_fits_role [OF h, of yes serve_all "Some (ex_user ''a'' ADMIN None)"
      "[(Promote, ''m''), (Promote, ''m''), (Demote, ''m''), (SaveProfile ''New'' None, ''m'')]"]
  show ?thesis by simp
qed

subsection \<open>Like toggle\<close>

lemma likes_query_dropped:
  "t_announcement_likes (snd (query_dropped bk q s))
     = (if served (bk q) then t_announcement_likes (exec q s) else t_announcement_likes s)"
  by (cases q) (simp_all add: query_dropped_def send_def Let_def)

lemma likes_toggle_served:
  assumes "served (bk (DeleteLike a u))" "served (bk (InsertLike a u))"
  shows "t_announcement_likes (snd (toggleAnnouncementLike bk a u liked s))
           = (if liked then filter (\<lambda>l. l \<noteq> (a, u)) (t_announcement_likes s)
              else t_announcement_likes s @ [(a, u)])"
  using assms by (simp add: toggleAnnouncementLike_def likes_query_dropped)

lemma filter_neq_append_mset:
  assumes "distinct L" "x \<in> set L"
  shows "mset (filter (\<lambda>l. l \<noteq> x) L @ [x]) = mset L"
  using assms
proof (induction L)
  case Nil
  then show ?case by simp
next
  case (Cons y ys)
  show ?case
  proof (cases "y = x")
    case True
    with Cons.prems have "x \<notin> set ys" by simp
    then have "filter (\<lambda>l. l \<noteq> x) ys = ys" by (auto simp: filter_id_conv)
    with True show ?thesis by simp
  next
    case False
    with Cons show ?thesis by simp
  qed
qed

lemma toggle_twice_lists:
  fixes L :: "'a list" and x :: 'a
  defines "L1 \<equiv> (if x \<in> set L then filter (\<lambda>l. l \<noteq> x) L else L @ [x])"
  defines "L2 \<equiv> (if x \<in> set L1 then filter (\<lambda>l. l \<noteq> x) L1 else L1 @ [x])"
  shows "set L2 = set L" and "distinct L \<Longrightarrow> mset L2 = mset L \<and> distinct L2"
    and "x \<notin> set L \<Longrightarrow> L2 = L"
proof -
  show out: "x \<notin> set L \<Longrightarrow> L2 = L"
    unfolding L2_def L1_def by (auto simp: filter_id_conv)
  have inn: "L2 = filter (\<lambda>l. l \<noteq> x) L @ [x]" if "x \<in> set L"
    using that unfolding L2_def L1_def by simp
  show "set L2 = set L"
  proof (cases "x \<in> set L")
    case True
    with inn show ?thesis by auto
  next
    case False
    with out show ?thesis by simp
  qed
  show "mset L2 = mset L \<and> distinct L2" if d: "distinct L"
  proof (cases "x \<in> set L")
    case True
    with inn [OF True] d filter_neq_append_mset [OF d True] show ?thesis by auto
  next
    case False
    with out d show ?thesis by simp
  qed
qed

lemma other_tables_query:
  "t_profiles (snd (query_dropped bk (InsertLike a u) s)) = t_profiles s"
  "t_profiles (snd (query_dropped bk (DeleteLike a u) s)) = t_profiles s"
  "t_workshop_participants (snd (query_dropped bk (InsertLike a u) s)) = t_workshop_participants s"
  "t_workshop_participants (snd (query_dropped bk (DeleteLike a u) s)) = t_workshop_participants s"
  by (simp_all add: query_dropped_def send_def Let_def)

text \<open>
  C6. For every announcement, user and like table: when the like toggle runs twice in a row,
  each time with \<open>isLiked\<close> telling whether the user's like is in the table at that moment,
  and the store serves the delete and the insert, the table holds the same likes afterwards
  as before. The first toggle flips the user's membership. If the user had not liked the
  announcement the table is the very same list; if the table had no duplicate rows it has the
  same rows afterwards, and again no duplicates.
\<close>

theorem like_toggle_round_trip:
  assumes del: "served (bk (DeleteLike a u))" and ins: "served (bk (InsertLike a u))"
  shows
  "(let s1 = snd (toggleAnnouncementLike bk a u ((a, u) \<in> set (t_announcement_likes s)) s);
        s2 = snd (toggleAnnouncementLike bk a u ((a, u) \<in> set (t_announcement_likes s1)) s1)
    in set (t_announcement_likes s2) = set (t_announcement_likes s)
     \<and> ((a, u) \<in> set (t_announcement_likes s1)) = ((a, u) \<notin> set (t_announcement_likes s))
     \<and> ((a, u) \<notin> set (t_announcement_likes s) \<longrightarrow>
           t_announcement_likes s2 = t_announcement_likes s)
     \<and> (distinct (t_announcement_likes s) \<longrightarrow>
           mset (t_announcement_likes s2) = mset (t_announcement_likes s)
           \<and> distinct (t_announcement_likes s2)))"
proof -
  define L where "L = t_announcement_likes s"
  define s1 where "s1 = snd (toggleAnnouncementLike bk a u ((a, u) \<in> set L) s)"
  define s2 where "s2 = snd (toggleAnnouncementLike bk a u ((a, u) \<in> set (t_announcement_likes s1)) s1)"
  have L1: "t_announcement_likes s1
              = (if (a, u) \<in> set L then filter (\<lambda>l. l \<noteq> (a, u)) L else L @ [(a, u)])"
    unfolding s1_def L_def by (rule likes_toggle_served [OF del ins])
  have L2: "t_announcement_likes s2
              = (if (a, u) \<in> set (t_announcement_likes s1)
                 then filter (\<lambda>l. l \<noteq> (a, u)) (t_announcement_likes s1)
                 else t_announcement_likes s1 @ [(a, u)])"
    unfolding s2_def by (rule likes_toggle_served [OF del ins])
  have flip: "((a, u) \<in> set (t_announcement_likes s1)) = ((a, u) \<notin> set L)"
    unfolding L1 by simp
  have "set (t_announcement_likes s2) = set L"
    unfolding L2 L1 by (rule toggle_twice_lists(1))
  moreover have "(a, u) \<notin> set L \<longrightarrow> t_announcement_likes s2 = L"
    unfolding L2 L1 using toggle_twice_lists(3) [of "(a, u)" L] by blast
  moreover have "distinct L \<longrightarrow> mset (t_announcement_likes s2) = mset L
                    \<and> distinct (t_announcement_likes s2)"
    unfolding L2 L1 using toggle_twice_lists(2) [of L "(a, u)"] by blast
  ultimately show ?thesis
    using flip unfolding Let_def s2_def s1_def L_def by blast
qed

text \<open>The view's handler changes the like table exactly as the gateway operation it calls.\<close>

lemma handleLike_likes:
  "t_announcement_likes (handleLike bk (Some usr) a liked s)
     = t_announcement_likes (snd (toggleAnnouncementLike bk a (u_id usr) liked s))"
  by (cases "toggleAnnouncementLike bk a (u_id usr) liked s"; cases "fst (toggleAnnouncementLike bk a (u_id usr) liked s)")
     (simp_all add: handleLike_def setDataTick_def alert_def)

text \<open>Two likes on one announcement; the first user unlikes and likes again.\<close>

theorem like_toggle_round_trip_witness:
  "served (serve_all (DeleteLike ''a1'' ''u1'')) \<and> served (serve_all (InsertLike ''a1'' ''u1''))
   \<and> t_announcement_likes (snd (toggleAnnouncementLike serve_all ''a1'' ''u1'' True ex_likes))
       = [(''a1'', ''u2'')]
   \<and> t_announcement_likes
        (snd (toggleAnnouncementLike serve_all ''a1'' ''u1'' False
                (snd (toggleAnnouncementLike serve_all ''a1'' ''u1'' True ex_likes))))
       = [(''a1'', ''u2''), (''a1'', ''u1'')]
   \<and> set [(''a1'', ''u2''), (''a1'', ''u1'')] = set (t_announcement_likes ex_likes)"
proof -
  have d: "served (serve_all (DeleteLike ''a1'' ''u1''))"
    and i: "served (serve_all (InsertLike ''a1'' ''u1''))"
    by (simp_all add: serve_all_def)
  have m: "((''a1'', ''u1'') \<in> set (t_announcement_likes ex_likes)) = True"
    by (simp add: ex_likes_def ex_world_def)
  have s1: "t_announcement_likes (snd (toggleAnnouncementLike serve_all ''a1'' ''u1'' True ex_likes))
       = [(''a1'', ''u2'')]"
    by (simp add: toggleAnnouncementLike_def query_dropped_def send_def serve_all_def Let_def
          ex_likes_def ex_world_def)
  have m1: "((''a1'', ''u1'') \<in> set (t_announcement_likes
              (snd (toggleAnnouncementLike serve_all ''a1'' ''u1'' True ex_likes)))) = False"
    by (simp add: s1)
  have s2: "t_announcement_likes
        (snd (toggleAnnouncementLike serve_all ''a1'' ''u1'' False
                (snd (toggleAnnouncementLike serve_all ''a1'' ''u1'' True ex_likes))))
       = [(''a1'', ''u2''), (''a1'', ''u1'')]"
    by (simp add: toggleAnnouncementLike_def query_dropped_def send_def serve_all_def Let_def
          ex_likes_def ex_world_def)
  from like_toggle_round_trip [OF d i, of ex_likes]
  have "set (t_announcement_likes
        (snd (toggleAnnouncementLike serve_all ''a1'' ''u1'' False
                (snd (toggleAnnouncementLike serve_all ''a1'' ''u1'' True ex_likes)))))
         = set (t_announcement_likes ex_likes)"
    unfolding Let_def m m1 by blast
  with d i s1 s2 show ?thesis by simp
qed

subsection \<open>Profile mapper\<close>

lemma data_or_empty_rows: "resolved q = Inr res \<Longrightarrow> data_or_empty res = rows_of q"
  by (cases q) (auto simp: data_or_empty_def)

lemma resolved_Inl: "(\<exists>e. resolved q = Inl e) = rejects q"
  by (cases q) auto

lemma mapProfileToUser_value:
  "mapProfileToUser sub profile =
     (case sub (pr_id profile) of (badgesQ, certsQ, notifsQ) \<Rightarrow>
        if rejects badgesQ \<or> rejects certsQ \<or> rejects notifsQ
        then Inr (profileUser profile [] [] [])
        else Inr (profileUser profile (map mapBadge (rows_of badgesQ))
                    (map mapCertificate (rows_of certsQ))
                    (map mapNotification (rows_of notifsQ))))"
proof -
  obtain bq cq nq where sub: "sub (pr_id profile) = (bq, cq, nq)"
    by (cases "sub (pr_id profile)") auto
  show ?thesis
    unfolding mapProfileToUser_def sub
    by (cases bq; cases cq; cases nq) (simp_all add: try_catch_def data_or_empty_def)
qed

text \<open>
  C8, as the code has it. For every profile record and every answer of the three sub-fetches
  the mapper returns a User, never an error, with all scalar fields copied from the profile.
  If one of the three awaited fetches rejects, the three collections are empty. Otherwise
  each collection is mapped from the rows of its own answer, and is empty when that answer has
  no rows or carries an error instead of data; the other two collections are not emptied by
  that.
\<close>

theorem mapProfileToUser_collections:
  "\<exists>u. mapProfileToUser sub profile = Inr u
     \<and> u_id u = pr_id profile \<and> u_name u = pr_name profile \<and> u_email u = pr_email profile
     \<and> u_role u = pr_role profile \<and> u_officerOrg u = pr_officer_org profile
     \<and> u_avatarUrl u = pr_avatar_url profile \<and> u_createdAt u = pr_created_at profile
     \<and> (case sub (pr_id profile) of (badgesQ, certsQ, notifsQ) \<Rightarrow>
           if rejects badgesQ \<or> rejects certsQ \<or> rejects notifsQ
           then u_badges u = [] \<and> u_certificates u = [] \<and> u_notifications u = []
           else u_badges u = map mapBadge (rows_of badgesQ)
              \<and> u_certificates u = map mapCertificate (rows_of certsQ)
              \<and> u_notifications u = map mapNotification (rows_of notifsQ))"
proof -
  obtain bq cq nq where sub: "sub (pr_id profile) = (bq, cq, nq)"
    by (cases "sub (pr_id profile)") auto
  show ?thesis
    unfolding mapProfileToUser_value sub
    by (simp add: profileUser_def)
qed

text \<open>
  C8, as the specification words it, fails: the badge fetch answers with an error, the
  certificate fetch with one row, and the User has that certificate.
\<close>

theorem mapProfileToUser_failed_fetch_counterexample:
  "mapProfileToUser ex_subfetch (ex_profile ''u1'' MEMBER None)
     = Inr (profileUser (ex_profile ''u1'' MEMBER None) [] [mapCertificate ex_certificate_row] [])
   \<and> \<not> served (fst (ex_subfetch ''u1''))
   \<and> u_certificates
        (profileUser (ex_profile ''u1'' MEMBER None) [] [mapCertificate ex_certificate_row] [])
       \<noteq> []"
  by (simp add: mapProfileToUser_value ex_subfetch_def answer_error_def answer_rows_def
        ex_profile_def profileUser_def)

text \<open>No rows at all, and a rejected certificate fetch: three empty collections both times.\<close>

theorem mapProfileToUser_collections_witness:
  "mapProfileToUser (\<lambda>uid. (answer_rows [], answer_rows [], answer_rows []))
       (ex_profile ''u1'' OFFICER (Some TCC))
     = Inr (ex_user ''u1'' OFFICER (Some TCC))
   \<and> mapProfileToUser (\<lambda>uid. (answer_rows [], Rejects ex_error, answer_rows []))
       (ex_profile ''u1'' OFFICER (Some TCC))
     = Inr (ex_user ''u1'' OFFICER (Some TCC))
   \<and> rejects (Rejects ex_error :: certificate_row list awaited)"
  using mapProfileToUser_collections
          [of "\<lambda>uid. (answer_rows [], answer_rows [], answer_rows [])" "ex_profile ''u1'' OFFICER (Some TCC)"]
        mapProfileToUser_collections
          [of "\<lambda>uid. (answer_rows [], Rejects ex_error, answer_rows [])" "ex_profile ''u1'' OFFICER (Some TCC)"]
  by (auto simp: answer_rows_def ex_user_def profileUser_def)

subsection \<open>Error policy of the gateway\<close>

text \<open>
  The four reads never throw: whatever the store answers they return a value, and the empty
  one (no rows, no user) when the answer is a rejection or carries an error.
\<close>

lemma promise_all_Inr: "list_all (\<lambda>p. \<exists>v. p = Inr v) ps \<Longrightarrow> \<exists>vs. promise_all ps = Inr vs"
  by (induction ps) auto

lemma reads_swallow_errors:
  "\<exists>ws. getWorkshops wq = Inr ws"
  "\<not> served wq \<Longrightarrow> getWorkshops wq = Inr []"
  "\<exists>as. getAnnouncements aq = Inr as"
  "\<not> served aq \<Longrightarrow> getAnnouncements aq = Inr []"
  "\<exists>us. getUsers pq sub = Inr us"
  "\<not> served pq \<Longrightarrow> getUsers pq sub = Inr []"
  "\<exists>cu. getCurrentUser sq prq sub = Inr cu"
  "rejects sq \<Longrightarrow> getCurrentUser sq prq sub = Inr None"
  "sq = Resolves (Some (Some uid)) err \<Longrightarrow> \<not> served (prq uid)
     \<Longrightarrow> getCurrentUser sq prq sub = Inr None"
proof -
  show "\<exists>ws. getWorkshops wq = Inr ws"
    by (cases wq) (auto simp: getWorkshops_def try_catch_def await_checked_def split: option.splits)
  show "\<not> served wq \<Longrightarrow> getWorkshops wq = Inr []"
    by (cases wq rule: served.cases) (auto simp: getWorkshops_def try_catch_def await_checked_def)
  show "\<exists>as. getAnnouncements aq = Inr as"
    by (cases aq) (auto simp: getAnnouncements_def try_catch_def await_checked_def split: option.splits)
  show "\<not> served aq \<Longrightarrow> getAnnouncements aq = Inr []"
    by (cases aq rule: served.cases) (auto simp: getAnnouncements_def try_catch_def await_checked_def)
  have all: "\<exists>vs. promise_all (map (mapProfileToUser sub) profiles) = Inr vs" for profiles
    by (rule promise_all_Inr) (auto simp: list_all_iff mapProfileToUser_value split: prod.splits)
  show "\<exists>us. getUsers pq sub = Inr us"
    using all by (cases pq) (auto simp: getUsers_def await_checked_def split: option.splits)
  show "\<not> served pq \<Longrightarrow> getUsers pq sub = Inr []"
    by (cases pq rule: served.cases) (auto simp: getUsers_def await_checked_def)
  have one: "\<exists>u. mapProfileToUser sub pr = Inr u" for pr
    by (auto simp: mapProfileToUser_value split: prod.splits)
  show "\<exists>cu. getCurrentUser sq prq sub = Inr cu"
  proof (cases sq)
    case (Rejects e)
    then show ?thesis by (simp add: getCurrentUser_def)
  next
    case (Resolves d err)
    show ?thesis
    proof (cases d)
      case None
      with Resolves show ?thesis by (simp add: getCurrentUser_def)
    next
      case (Some session)
      show ?thesis
      proof (cases session)
        case None
        with Resolves Some show ?thesis by (simp add: getCurrentUser_def)
      next
        case (Some uid)
        note sess = Resolves \<open>d = Some session\<close> Some
        show ?thesis
        proof (cases "prq uid")
          case (Rejects e)
          with sess show ?thesis by (simp add: getCurrentUser_def)
        next
          case R: (Resolves pd perr)
          show ?thesis
          proof (cases "perr = None \<and> pd \<noteq> None")
            case False
            with sess R show ?thesis
              by (auto simp: getCurrentUser_def split: option.splits)
          next
            case True
            then obtain pr where pr: "pd = Some pr" "perr = None" by auto
            from one [of pr] obtain u where "mapProfileToUser sub pr = Inr u" by blast
            with sess R pr show ?thesis by (simp add: getCurrentUser_def)
          qed
        qed
      qed
    qed
  qed
  show "rejects sq \<Longrightarrow> getCurrentUser sq prq sub = Inr None"
    by (cases sq) (auto simp: getCurrentUser_def)
  show "sq = Resolves (Some (Some uid)) err \<Longrightarrow> \<not> served (prq uid)
     \<Longrightarrow> getCurrentUser sq prq sub = Inr None"
    by (cases "prq uid" rule: served.cases) (auto simp: getCurrentUser_def split: option.splits)
qed

text \<open>
  The writes that test \<^verbatim>\<open>error\<close> throw unless the store serves the request. The writes that
  only await the query throw when the promise rejects, and at no other time.
\<close>

lemma query_checked_raises:
  "fst (query_checked bk q s) = (case bk q of Rejects e \<Rightarrow> Inl e
                                  | Resolves d err \<Rightarrow> (case err of Some e \<Rightarrow> Inl e | None \<Rightarrow> Inr ()))"
  by (cases "bk q") (auto simp: query_checked_def send_def Let_def await_checked_def split: option.splits)

lemma query_dropped_raises:
  "fst (query_dropped bk q s) = (case bk q of Rejects e \<Rightarrow> Inl e | Resolves d err \<Rightarrow> Inr ())"
  by (cases "bk q") (auto simp: query_dropped_def send_def Let_def await_dropped_def)

lemma checked_writes_raise:
  "fst (saveUser bk user s) = Inr () \<longleftrightarrow>
     served (bk (role_update user (u_role user) (u_officerOrg user)))"
  "fst (joinWorkshop bk wid uid s) = Inr () \<longleftrightarrow> served (bk (InsertParticipant wid uid))"
  by (simp_all add: saveUser_def joinWorkshop_def query_checked_raises role_update_def
      split: awaited.splits option.splits)

lemma dropped_writes_raise_only_on_rejection:
  "fst (toggleAnnouncementLike bk a u True s) = Inr () \<longleftrightarrow> \<not> rejects (bk (DeleteLike a u))"
  "fst (toggleAnnouncementLike bk a u False s) = Inr () \<longleftrightarrow> \<not> rejects (bk (InsertLike a u))"
  "fst (sendNotification bk u title msg ty s) = Inr () \<longleftrightarrow>
     \<not> rejects (bk (InsertNotification \<lparr> ni_user_id = u, ni_title = title, ni_message = msg,
                                         ni_type = ty, ni_is_read = False \<rparr>))"
  "fst (issueBadge bk badge s) = Inr () \<longleftrightarrow>
     \<not> rejects (bk (InsertBadge \<lparr> bi_user_id = ba_userId badge, bi_title = ba_title badge,
            bi_organization = ba_organization badge,
            bi_workshop_title = ba_workshopTitle badge, bi_issued_at = ba_issuedAt badge,
            bi_image_url = ba_imageUrl badge \<rparr>))"
  "fst (issueCertificate bk cert s) = Inr () \<longleftrightarrow>
     \<not> rejects (bk (InsertCertificate \<lparr> ci_user_id = ca_userId cert, ci_title = ca_title cert,
            ci_organization = ca_organization cert,
            ci_workshop_title = ca_workshopTitle cert, ci_content = ca_content cert,
            ci_issued_at = ca_issuedAt cert, ci_file_url = ca_fileUrl cert \<rparr>))"
  "fst (revokeAwards bk u title s) = Inr () \<longleftrightarrow>
     \<not> rejects (bk (DeleteBadges u title)) \<and> \<not> rejects (bk (DeleteCertificates u title))"
proof -
  show "fst (revokeAwards bk u title s) = Inr () \<longleftrightarrow>
     \<not> rejects (bk (DeleteBadges u title)) \<and> \<not> rejects (bk (DeleteCertificates u title))"
    by (cases "bk (DeleteBadges u title)"; cases "bk (DeleteCertificates u title)")
       (simp_all add: revokeAwards_def andThen_def query_dropped_def send_def Let_def
          await_dropped_def)
qed (simp_all add: toggleAnnouncementLike_def sendNotification_def issueBadge_def
       issueCertificate_def query_dropped_raises split: awaited.splits)

lemma ex_participants_2:
  "ex_participants 2 = [ex_participant, ex_participant\<lparr> p_id := ''u1'', p_name := ''P1'' \<rparr>]"
  by (simp add: ex_participants_def ex_participant_def upt_conv_Cons
        string_of_nat.simps digit_def)

text \<open>
  C3 at a store that answers the badge insert with \<^verbatim>\<open>{ data: null, error }\<close>:
  \<^verbatim>\<open>issueBadge\<close> returns normally, and the award workflow goes on to announce success with no
  badge stored, where \<^verbatim>\<open>joinWorkshop\<close> throws the error of such an answer.
\<close>

theorem issueBadge_drops_store_error:
  "refuse_badge_of ''u0''
      (InsertBadge \<lparr> bi_user_id = ''u0'', bi_title = ''Intro Graduate'', bi_organization = CES,
                      bi_workshop_title = ''Intro'',
                      bi_issued_at = ''2024-05-01T10:00:00.000Z'', bi_image_url = None \<rparr>)
     = Resolves None (Some ex_error)
   \<and> issueBadge (refuse_badge_of ''u0'') ex_badge_args (ex_world [])
     = (Inr (),
        (ex_world [])\<lparr> events :=
          [Sent (InsertBadge \<lparr> bi_user_id = ''u0'', bi_title = ''Intro Graduate'',
                   bi_organization = CES, bi_workshop_title = ''Intro'',
                   bi_issued_at = ''2024-05-01T10:00:00.000Z'', bi_image_url = None \<rparr>)] \<rparr>)
   \<and> alerts (events (handleIssueAwards ''2024-05-01T10:00:00.000Z'' (refuse_badge_of ''u0'')
                         ex_participant (ex_workshop ''w1'' 10 CES 2) (ex_world [])))
     = [''Awards issued to P0 successfully!'']
   \<and> t_badges (handleIssueAwards ''2024-05-01T10:00:00.000Z'' (refuse_badge_of ''u0'')
                  ex_participant (ex_workshop ''w1'' 10 CES 2) (ex_world [])) = []
   \<and> fst (joinWorkshop (\<lambda>q. Resolves None (Some ex_error)) ''w1'' ''u0'' (ex_world []))
     = Inl ex_error"
  by (simp add: issueBadge_def query_dropped_def send_def Let_def await_dropped_def
        refuse_badge_of_def answer_error_def ex_badge_args_def ex_world_def
        handleIssueAwards_def issueAwardsTo_def issueCertificate_def sendNotification_def
        andThen_def alert_def ex_participant_def ex_workshop_def joinWorkshop_def
        query_checked_def await_checked_def)

subsection \<open>Awards\<close>

lemma sent_requests_map_Sent: "sent_requests (map Sent rs) = rs"
  by (induction rs) simp_all

lemma alerts_map_Sent: "alerts (map Sent rs) = []"
  by (induction rs) simp_all

lemma alerts_append: "alerts (xs @ ys) = alerts xs @ alerts ys"
  by (induction xs rule: alerts.induct) simp_all

lemma badge_users_append: "badge_users (xs @ ys) = badge_users xs @ badge_users ys"
  by (induction xs rule: badge_users.induct) simp_all

text \<open>A query that is only awaited, by the answer of the store.\<close>

lemma query_dropped_rejects:
  "rejects (bk q) \<Longrightarrow>
     \<exists>e. query_dropped bk q s = (Inl e, s\<lparr> events := events s @ [Sent q] \<rparr>)"
  by (cases "bk q") (simp_all add: query_dropped_def send_def Let_def await_dropped_def)

lemma query_dropped_served:
  "served (bk q) \<Longrightarrow>
     query_dropped bk q s = (Inr (), exec q (s\<lparr> events := events s @ [Sent q] \<rparr>))"
  by (cases "bk q" rule: served.cases)
     (simp_all add: query_dropped_def send_def Let_def await_dropped_def)

lemma query_dropped_refused:
  "\<not> rejects (bk q) \<Longrightarrow> \<not> served (bk q) \<Longrightarrow>
     query_dropped bk q s = (Inr (), s\<lparr> events := events s @ [Sent q] \<rparr>)"
  by (cases "bk q" rule: served.cases)
     (simp_all add: query_dropped_def send_def Let_def await_dropped_def)

lemma query_dropped_events:
  "events (snd (query_dropped bk q s)) = events s @ [Sent q]"
  by (cases "bk q" rule: served.cases)
     (simp_all add: query_dropped_def send_def Let_def await_dropped_def events_exec)

lemma query_dropped_fst:
  "(fst (query_dropped bk q s) = Inr ()) = (\<not> rejects (bk q))"
  by (cases "bk q") (simp_all add: query_dropped_def send_def Let_def await_dropped_def)

lemma andThen_events:
  assumes "\<And>s1. events (snd (f s1)) = events s1 @ fe"
  shows "events (snd (andThen r f))
           = (if fst r = Inr () then events (snd r) @ fe else events (snd r))"
  using assms by (cases r; cases "fst r") (auto simp: andThen_def)

lemma andThen_fst:
  "(fst (andThen r f) = Inr ()) = (fst r = Inr () \<and> fst (f (snd r)) = Inr ())"
  by (cases r; cases "fst r") (auto simp: andThen_def)

lemma issueAwardsTo_queries:
  "issueAwardsTo issuedAt bk uid name w s
     = andThen (andThen (query_dropped bk (badge_request issuedAt uid w) s)
                        (query_dropped bk (certificate_request issuedAt uid name w)))
               (query_dropped bk (notification_request uid w))"
  by (simp add: issueAwardsTo_def issueBadge_def issueCertificate_def [abs_def]
        sendNotification_def [abs_def] badge_request_def certificate_request_def
        notification_request_def)

lemma issueAwardsTo_events:
  "events (snd (issueAwardsTo issuedAt bk uid name w s))
     = events s @ map Sent (sequence_sent bk issuedAt uid name w)"
  unfolding issueAwardsTo_queries sequence_sent_def
  by (simp add: andThen_events [where fe = "[Sent q]" for q] query_dropped_events
        andThen_fst query_dropped_fst)

lemma issueAwardsTo_fst:
  "(fst (issueAwardsTo issuedAt bk uid name w s) = Inr ())
     = (\<not> rejects (bk (badge_request issuedAt uid w))
        \<and> \<not> rejects (bk (certificate_request issuedAt uid name w))
        \<and> \<not> rejects (bk (notification_request uid w)))"
  unfolding issueAwardsTo_queries by (simp add: andThen_fst query_dropped_fst)

lemma sequence_sent_ok:
  "list_all (award_request_ok issuedAt w [uid]) (sequence_sent bk issuedAt uid name w)"
  "badge_users (sequence_sent bk issuedAt uid name w) = [uid]"
  by (simp_all add: sequence_sent_def award_request_ok_def badge_request_def
        certificate_request_def notification_request_def)

lemma issueAwardsTo_served:
  assumes "served (bk (badge_request issuedAt uid w))"
    and "served (bk (certificate_request issuedAt uid name w))"
    and "served (bk (notification_request uid w))"
  shows "\<exists>b c. t_badges (snd (issueAwardsTo issuedAt bk uid name w s)) = t_badges s @ [b]
           \<and> t_certificates (snd (issueAwardsTo issuedAt bk uid name w s))
               = t_certificates s @ [c]
           \<and> bi_issued_at b = issuedAt \<and> ci_issued_at c = issuedAt
           \<and> badge_of uid (w_title w) b \<and> certificate_of uid (w_title w) c"
  unfolding issueAwardsTo_queries
  using assms
  by (simp add: query_dropped_served andThen_def)
     (simp add: badge_request_def certificate_request_def notification_request_def
        badge_of_def certificate_of_def)

lemma served_not_rejects: "served r \<Longrightarrow> \<not> rejects r"
  by (cases r rule: served.cases) simp_all

lemma sequence_all_served:
  assumes "list_all (\<lambda>q. served (bk q)) (sequence_sent bk issuedAt uid name w)"
  shows "served (bk (badge_request issuedAt uid w))"
    and "served (bk (certificate_request issuedAt uid name w))"
    and "served (bk (notification_request uid w))"
proof -
  show b: "served (bk (badge_request issuedAt uid w))"
    using assms by (auto simp: sequence_sent_def split: if_splits)
  show c: "served (bk (certificate_request issuedAt uid name w))"
    using assms served_not_rejects [OF b] by (auto simp: sequence_sent_def split: if_splits)
  show "served (bk (notification_request uid w))"
    using assms served_not_rejects [OF b] served_not_rejects [OF c]
    by (auto simp: sequence_sent_def split: if_splits)
qed

lemma handleIssueAwards_state:
  "\<exists>m. handleIssueAwards issuedAt bk participant workshop s
        = alert m (snd (issueAwardsTo issuedAt bk (p_id participant) (p_name participant) workshop s))"
  by (cases "issueAwardsTo issuedAt bk (p_id participant) (p_name participant) workshop s";
      cases "fst (issueAwardsTo issuedAt bk (p_id participant) (p_name participant) workshop s)")
     (auto simp: handleIssueAwards_def)

lemma handleIssueAwards_sent:
  "sent_requests (new_events s (handleIssueAwards issuedAt bk participant workshop s))
     = sequence_sent bk issuedAt (p_id participant) (p_name participant) workshop"
proof -
  obtain m where m: "handleIssueAwards issuedAt bk participant workshop s
        = alert m (snd (issueAwardsTo issuedAt bk (p_id participant) (p_name participant) workshop s))"
    using handleIssueAwards_state by blast
  show ?thesis
    unfolding m
    by (simp add: new_events_def alert_def issueAwardsTo_events sent_requests_append
          sent_requests_map_Sent)
qed

lemma revokeAwards_sent:
  "sent_requests (new_events s (snd (revokeAwards bk uid title s)))
     = (if rejects (bk (DeleteBadges uid title)) then [DeleteBadges uid title]
        else [DeleteBadges uid title, DeleteCertificates uid title])"
  unfolding revokeAwards_def
  by (simp add: new_events_def andThen_events [where fe = "[Sent q]" for q] query_dropped_events
        query_dropped_fst)

lemma revokeAwards_served:
  assumes "served (bk (DeleteBadges uid title))" "served (bk (DeleteCertificates uid title))"
  shows "t_badges (snd (revokeAwards bk uid title s))
           = filter (\<lambda>b. \<not> badge_of uid title b) (t_badges s)"
    and "t_certificates (snd (revokeAwards bk uid title s))
           = filter (\<lambda>c. \<not> certificate_of uid title c) (t_certificates s)"
  using assms
  by (simp_all add: revokeAwards_def query_dropped_served andThen_def badge_of_def
        certificate_of_def)

text \<open>The bulk run, item by item.\<close>

lemma bulkItem_events:
  "events (snd (bulkItem issuedAt bk w pId s))
     = events s @ map Sent (case find (\<lambda>p. p_id p = pId) (w_participants w) of
                              None \<Rightarrow> []
                            | Some participant \<Rightarrow>
                                sequence_sent bk issuedAt pId (p_name participant) w)"
  by (simp add: bulkItem_def issueAwardsTo_events split: option.splits)

lemma runAll_bulk_events:
  "\<exists>rs. events (snd (runAll (map (bulkItem issuedAt bk w) ids) s)) = events s @ map Sent rs
      \<and> (set ids \<subseteq> set uids \<longrightarrow> list_all (award_request_ok issuedAt w uids) rs)
      \<and> (set ids \<subseteq> p_id ` set (w_participants w) \<longrightarrow> badge_users rs = ids)"
proof (induction ids arbitrary: s)
  case Nil
  show ?case by (intro exI [of _ "[]"]) simp
next
  case (Cons pId ids)
  define r1 where "r1 = (case find (\<lambda>p. p_id p = pId) (w_participants w) of
                              None \<Rightarrow> []
                            | Some participant \<Rightarrow>
                                sequence_sent bk issuedAt pId (p_name participant) w)"
  define s1 where "s1 = snd (bulkItem issuedAt bk w pId s)"
  have e1: "events s1 = events s @ map Sent r1"
    unfolding s1_def r1_def by (rule bulkItem_events)
  from Cons.IH [of s1] obtain rs where
    rs: "events (snd (runAll (map (bulkItem issuedAt bk w) ids) s1)) = events s1 @ map Sent rs"
    and ok: "set ids \<subseteq> set uids \<longrightarrow> list_all (award_request_ok issuedAt w uids) rs"
    and bu: "set ids \<subseteq> p_id ` set (w_participants w) \<longrightarrow> badge_users rs = ids"
    by blast
  have run: "snd (runAll (map (bulkItem issuedAt bk w) (pId # ids)) s)
               = snd (runAll (map (bulkItem issuedAt bk w) ids) s1)"
    unfolding s1_def by (simp split: prod.splits)
  have ok1: "pId \<in> set uids \<longrightarrow> list_all (award_request_ok issuedAt w uids) r1"
  proof
    assume "pId \<in> set uids"
    then have "award_request_ok issuedAt w [pId] q \<Longrightarrow> award_request_ok issuedAt w uids q" for q
      by (auto simp: award_request_ok_def split: request.splits)
    then show "list_all (award_request_ok issuedAt w uids) r1"
      unfolding r1_def using sequence_sent_ok(1) [of issuedAt w pId bk]
      by (auto simp: list_all_iff split: option.splits)
  qed
  have bu1: "pId \<in> p_id ` set (w_participants w) \<longrightarrow> badge_users r1 = [pId]"
  proof
    assume "pId \<in> p_id ` set (w_participants w)"
    then obtain participant where "find (\<lambda>p. p_id p = pId) (w_participants w) = Some participant"
      by (cases "find (\<lambda>p. p_id p = pId) (w_participants w)") (auto simp: find_None_iff)
    then show "badge_users r1 = [pId]"
      unfolding r1_def by (simp add: sequence_sent_ok(2))
  qed
  show ?case
    unfolding run rs e1 using ok bu ok1 bu1
    by (intro exI [of _ "r1 @ rs"]) (simp add: badge_users_append)
qed

lemma handleBulkIssueAwards_run:
  assumes wid: "wid \<noteq> []" and ids: "ids \<noteq> []"
    and w: "find (\<lambda>w. w_id w = wid) workshops = Some workshop"
    and yes: "confirm (''Issue awards to all '' @ string_of_nat (length ids)
                        @ '' selected participants?'')"
  shows "\<exists>rs m tl. events (handleBulkIssueAwards confirm issuedAt bk (Some wid) ids workshops s)
                     = events s @ map Sent rs @ Alert m # tl
      \<and> (tl = [] \<or> tl = [SelectionCleared])
      \<and> list_all (award_request_ok issuedAt workshop ids) rs
      \<and> (set ids \<subseteq> p_id ` set (w_participants workshop) \<longrightarrow> badge_users rs = ids)"
proof -
  obtain res s1 where run: "runAll (map (bulkItem issuedAt bk workshop) ids) s = (res, s1)"
    by (cases "runAll (map (bulkItem issuedAt bk workshop) ids) s") auto
  from runAll_bulk_events [of issuedAt bk workshop ids s ids] run
  obtain rs where rs: "events s1 = events s @ map Sent rs"
    and ok: "list_all (award_request_ok issuedAt workshop ids) rs"
    and bu: "set ids \<subseteq> p_id ` set (w_participants workshop) \<longrightarrow> badge_users rs = ids"
    by auto
  show ?thesis
  proof (cases "promise_all res")
    case (Inl e)
    with wid ids w yes run rs
    have "events (handleBulkIssueAwards confirm issuedAt bk (Some wid) ids workshops s)
            = events s @ map Sent rs @ Alert (''Failed to issue some awards: '' @ formatError e) # []"
      by (simp add: handleBulkIssueAwards_def Let_def alert_def)
    with ok bu show ?thesis by blast
  next
    case (Inr u)
    with wid ids w yes run rs
    have "events (handleBulkIssueAwards confirm issuedAt bk (Some wid) ids workshops s)
            = events s @ map Sent rs
              @ Alert (''Successfully issued awards to '' @ string_of_nat (length ids)
                       @ '' participants!'') # [SelectionCleared]"
      by (simp add: handleBulkIssueAwards_def Let_def alert_def setSelectedParticipantsEmpty_def)
    with ok bu show ?thesis by blast
  qed
qed

lemma handleBulkIssueAwards_gate:
  assumes "wid = [] \<or> ids = [] \<or> find (\<lambda>w. w_id w = wid) workshops = None
           \<or> \<not> confirm (''Issue awards to all '' @ string_of_nat (length ids)
                        @ '' selected participants?'')"
  shows "handleBulkIssueAwards confirm issuedAt bk (Some wid) ids workshops s = s"
  using assms by (auto simp: handleBulkIssueAwards_def split: option.splits)

lemma handleBulkIssueAwards_sent_ok:
  assumes w: "find (\<lambda>w. w_id w = wid) workshops = Some workshop"
  shows "list_all (award_request_ok issuedAt workshop ids)
           (sent_requests (new_events s
              (handleBulkIssueAwards confirm issuedAt bk (Some wid) ids workshops s)))"
proof (cases "wid \<noteq> [] \<and> ids \<noteq> []
                \<and> confirm (''Issue awards to all '' @ string_of_nat (length ids)
                        @ '' selected participants?'')")
  case False
  then have "handleBulkIssueAwards confirm issuedAt bk (Some wid) ids workshops s = s"
    by (intro handleBulkIssueAwards_gate) blast
  then show ?thesis by (simp add: new_events_def)
next
  case True
  from handleBulkIssueAwards_run [OF _ _ w, of ids confirm issuedAt bk s] True
  obtain rs m tl where
    ev: "events (handleBulkIssueAwards confirm issuedAt bk (Some wid) ids workshops s)
           = events s @ map Sent rs @ Alert m # tl"
    and tl: "tl = [] \<or> tl = [SelectionCleared]"
    and ok: "list_all (award_request_ok issuedAt workshop ids) rs"
    by blast
  from tl have "sent_requests (map Sent rs @ Alert m # tl) = rs"
    by (auto simp: sent_requests_append sent_requests_map_Sent)
  with ok show ?thesis by (simp add: new_events_def ev)
qed

text \<open>The bulk run on a store that serves what it is sent.\<close>

lemma bulkItem_item_sent:
  "events (snd (bulkItem issuedAt bk w pId s)) = events s @ map Sent (item_sent bk issuedAt w pId)"
  unfolding item_sent_def by (rule bulkItem_events)

lemma runAll_snd_Cons:
  "snd (runAll (f # fs) s) = snd (runAll fs (snd (f s)))"
  by (simp split: prod.splits)

lemma runAll_fst_Cons:
  "fst (runAll (f # fs) s) = fst (f s) # fst (runAll fs (snd (f s)))"
  by (simp split: prod.splits)

lemma runAll_bulk_sent:
  "events (snd (runAll (map (bulkItem issuedAt bk w) ids) s))
     = events s @ map Sent (concat (map (item_sent bk issuedAt w) ids))"
proof (induction ids arbitrary: s)
  case Nil
  show ?case by simp
next
  case (Cons pId ids)
  show ?case
    by (simp only: list.map runAll_snd_Cons Cons.IH bulkItem_item_sent concat.simps map_append
          append_assoc)
qed

lemma bulkItem_served:
  assumes p: "pId \<in> p_id ` set (w_participants w)"
    and sv: "list_all (\<lambda>q. served (bk q)) (item_sent bk issuedAt w pId)"
  shows "\<exists>b c. t_badges (snd (bulkItem issuedAt bk w pId s)) = t_badges s @ [b]
           \<and> t_certificates (snd (bulkItem issuedAt bk w pId s)) = t_certificates s @ [c]
           \<and> bi_user_id b = pId \<and> ci_user_id c = pId
           \<and> stamped_badge issuedAt w b \<and> stamped_certificate issuedAt w c"
proof -
  from p obtain participant where f: "find (\<lambda>p. p_id p = pId) (w_participants w) = Some participant"
    by (cases "find (\<lambda>p. p_id p = pId) (w_participants w)") (auto simp: find_None_iff)
  from sv f have sv': "list_all (\<lambda>q. served (bk q)) (sequence_sent bk issuedAt pId (p_name participant) w)"
    by (simp add: item_sent_def)
  from issueAwardsTo_served [OF sequence_all_served [OF sv'], of s]
  show ?thesis
    by (auto simp: bulkItem_def f badge_of_def certificate_of_def stamped_badge_def
          stamped_certificate_def)
qed

lemma runAll_bulk_served:
  assumes "set ids \<subseteq> p_id ` set (w_participants w)"
    and "list_all (\<lambda>q. served (bk q)) (concat (map (item_sent bk issuedAt w) ids))"
  shows "\<exists>bs cs. t_badges (snd (runAll (map (bulkItem issuedAt bk w) ids) s)) = t_badges s @ bs
           \<and> t_certificates (snd (runAll (map (bulkItem issuedAt bk w) ids) s))
               = t_certificates s @ cs
           \<and> map bi_user_id bs = ids \<and> map ci_user_id cs = ids
           \<and> list_all (stamped_badge issuedAt w) bs
           \<and> list_all (stamped_certificate issuedAt w) cs"
  using assms
proof (induction ids arbitrary: s)
  case Nil
  show ?case by simp
next
  case (Cons pId ids)
  define s1 where "s1 = snd (bulkItem issuedAt bk w pId s)"
  from Cons.prems have p: "pId \<in> p_id ` set (w_participants w)"
    and rest: "set ids \<subseteq> p_id ` set (w_participants w)"
    and sv1: "list_all (\<lambda>q. served (bk q)) (item_sent bk issuedAt w pId)"
    and sv2: "list_all (\<lambda>q. served (bk q)) (concat (map (item_sent bk issuedAt w) ids))"
    by simp_all
  from bulkItem_served [OF p sv1, of s] obtain b c where
    b: "t_badges s1 = t_badges s @ [b]" "t_certificates s1 = t_certificates s @ [c]"
       "bi_user_id b = pId" "ci_user_id c = pId"
       "stamped_badge issuedAt w b" "stamped_certificate issuedAt w c"
    unfolding s1_def by blast
  from Cons.IH [OF rest sv2, of s1] obtain bs cs where
    bs: "t_badges (snd (runAll (map (bulkItem issuedAt bk w) ids) s1)) = t_badges s1 @ bs"
        "t_certificates (snd (runAll (map (bulkItem issuedAt bk w) ids) s1)) = t_certificates s1 @ cs"
        "map bi_user_id bs = ids" "map ci_user_id cs = ids"
        "list_all (stamped_badge issuedAt w) bs" "list_all (stamped_certificate issuedAt w) cs"
    by blast
  have run: "snd (runAll (map (bulkItem issuedAt bk w) (pId # ids)) s)
               = snd (runAll (map (bulkItem issuedAt bk w) ids) s1)"
    unfolding s1_def by (simp only: list.map runAll_snd_Cons)
  show ?case
    unfolding run using b bs
    by (intro exI [of _ "b # bs"] exI [of _ "c # cs"]) simp
qed

text \<open>The bulk workflow past its guards: the state the run of the items leaves, plus one alert.\<close>

lemma handleBulkIssueAwards_tables:
  assumes wid: "wid \<noteq> []" and ids: "ids \<noteq> []"
    and w: "find (\<lambda>w. w_id w = wid) workshops = Some workshop"
    and yes: "confirm (''Issue awards to all '' @ string_of_nat (length ids)
                        @ '' selected participants?'')"
  shows "t_badges (handleBulkIssueAwards confirm issuedAt bk (Some wid) ids workshops s)
           = t_badges (snd (runAll (map (bulkItem issuedAt bk workshop) ids) s))"
    and "t_certificates (handleBulkIssueAwards confirm issuedAt bk (Some wid) ids workshops s)
           = t_certificates (snd (runAll (map (bulkItem issuedAt bk workshop) ids) s))"
    and "sent_requests (new_events s
            (handleBulkIssueAwards confirm issuedAt bk (Some wid) ids workshops s))
           = concat (map (item_sent bk issuedAt workshop) ids)"
proof -
  obtain res s1 where run: "runAll (map (bulkItem issuedAt bk workshop) ids) s = (res, s1)"
    by (cases "runAll (map (bulkItem issuedAt bk workshop) ids) s") auto
  have ev: "events s1 = events s @ map Sent (concat (map (item_sent bk issuedAt workshop) ids))"
    using runAll_bulk_sent [of issuedAt bk workshop ids s] run by simp
  have "t_badges (handleBulkIssueAwards confirm issuedAt bk (Some wid) ids workshops s) = t_badges s1
      \<and> t_certificates (handleBulkIssueAwards confirm issuedAt bk (Some wid) ids workshops s)
           = t_certificates s1
      \<and> sent_requests (new_events s
            (handleBulkIssueAwards confirm issuedAt bk (Some wid) ids workshops s))
           = concat (map (item_sent bk issuedAt workshop) ids)"
    using wid ids w yes run ev
    by (cases "promise_all res")
       (simp_all add: handleBulkIssueAwards_def Let_def alert_def
          setSelectedParticipantsEmpty_def new_events_def sent_requests_append
          sent_requests_map_Sent)
  with run show
    "t_badges (handleBulkIssueAwards confirm issuedAt bk (Some wid) ids workshops s)
           = t_badges (snd (runAll (map (bulkItem issuedAt bk workshop) ids) s))"
    "t_certificates (handleBulkIssueAwards confirm issuedAt bk (Some wid) ids workshops s)
           = t_certificates (snd (runAll (map (bulkItem issuedAt bk workshop) ids) s))"
    "sent_requests (new_events s
            (handleBulkIssueAwards confirm issuedAt bk (Some wid) ids workshops s))
           = concat (map (item_sent bk issuedAt workshop) ids)"
    by simp_all
qed

lemma badge_users_item_sent:
  "set ids \<subseteq> p_id ` set (w_participants w) \<Longrightarrow>
     badge_users (concat (map (item_sent bk issuedAt w) ids)) = ids"
proof (induction ids)
  case Nil
  show ?case by simp
next
  case (Cons pId ids)
  then obtain participant where "find (\<lambda>p. p_id p = pId) (w_participants w) = Some participant"
    by (cases "find (\<lambda>p. p_id p = pId) (w_participants w)") (auto simp: find_None_iff)
  then have "badge_users (item_sent bk issuedAt w pId) = [pId]"
    by (simp add: item_sent_def sequence_sent_ok(2))
  with Cons show ?case by (simp add: badge_users_append)
qed

lemma revokeAwards_all_served:
  assumes "list_all (\<lambda>q. served (bk q))
             (sent_requests (new_events s (snd (revokeAwards bk uid title s))))"
  shows "served (bk (DeleteBadges uid title))" "served (bk (DeleteCertificates uid title))"
proof -
  show d1: "served (bk (DeleteBadges uid title))"
    using assms unfolding revokeAwards_sent by (auto split: if_splits)
  then have "\<not> rejects (bk (DeleteBadges uid title))" by (rule served_not_rejects)
  then show "served (bk (DeleteCertificates uid title))"
    using assms unfolding revokeAwards_sent by simp
qed


lemma filter_stamped_badges:
  "list_all (stamped_badge issuedAt w) bs \<Longrightarrow>
     filter (\<lambda>b. \<not> badge_of uid (w_title w) b) bs = filter (\<lambda>b. bi_user_id b \<noteq> uid) bs"
  by (induction bs) (auto simp: stamped_badge_def badge_of_def)

lemma filter_stamped_certificates:
  "list_all (stamped_certificate issuedAt w) cs \<Longrightarrow>
     filter (\<lambda>c. \<not> certificate_of uid (w_title w) c) cs = filter (\<lambda>c. ci_user_id c \<noteq> uid) cs"
  by (induction cs) (auto simp: stamped_certificate_def certificate_of_def)

lemma bulk_awards_served:
  fixes s :: world and bk :: backend and issuedAt :: string and uid :: string
  assumes wid: "wid \<noteq> []" and ids: "ids \<noteq> []"
    and w: "find (\<lambda>w. w_id w = wid) workshops = Some workshop"
    and yes: "confirm (''Issue awards to all '' @ string_of_nat (length ids)
                        @ '' selected participants?'')"
    and sel: "set ids \<subseteq> p_id ` set (w_participants workshop)"
  defines "s3 \<equiv> handleBulkIssueAwards confirm issuedAt bk (Some wid) ids workshops s"
  defines "s4 \<equiv> snd (revokeAwards bk uid (w_title workshop) s3)"
  shows "badge_users (sent_requests (new_events s s3)) = ids"
    and "list_all (\<lambda>q. served (bk q)) (sent_requests (new_events s s3)) \<Longrightarrow>
          \<exists>bs cs. t_badges s3 = t_badges s @ bs \<and> t_certificates s3 = t_certificates s @ cs
            \<and> map bi_user_id bs = ids \<and> map ci_user_id cs = ids
            \<and> list_all (stamped_badge issuedAt workshop) bs
            \<and> list_all (stamped_certificate issuedAt workshop) cs
            \<and> (list_all (\<lambda>q. served (bk q)) (sent_requests (new_events s3 s4)) \<longrightarrow>
                  t_badges s4
                    = filter (\<lambda>b. \<not> badge_of uid (w_title workshop) b) (t_badges s)
                      @ filter (\<lambda>b. bi_user_id b \<noteq> uid) bs
                \<and> t_certificates s4
                    = filter (\<lambda>c. \<not> certificate_of uid (w_title workshop) c) (t_certificates s)
                      @ filter (\<lambda>c. ci_user_id c \<noteq> uid) cs)"
proof -
  note tb = handleBulkIssueAwards_tables
              [where confirm = confirm and issuedAt = issuedAt and bk = bk and s = s,
               OF wid ids w yes]
  show "badge_users (sent_requests (new_events s s3)) = ids"
    unfolding s3_def tb(3) by (rule badge_users_item_sent [OF sel])
  assume sv: "list_all (\<lambda>q. served (bk q)) (sent_requests (new_events s s3))"
  then have sv': "list_all (\<lambda>q. served (bk q)) (concat (map (item_sent bk issuedAt workshop) ids))"
    unfolding s3_def tb(3) .
  from runAll_bulk_served [OF sel sv', of s] obtain bs cs where
    t: "t_badges s3 = t_badges s @ bs" "t_certificates s3 = t_certificates s @ cs"
    and u: "map bi_user_id bs = ids" "map ci_user_id cs = ids"
    and st: "list_all (stamped_badge issuedAt workshop) bs"
            "list_all (stamped_certificate issuedAt workshop) cs"
    unfolding s3_def tb(1,2) by blast
  have rv: "t_badges s4
                    = filter (\<lambda>b. \<not> badge_of uid (w_title workshop) b) (t_badges s)
                      @ filter (\<lambda>b. bi_user_id b \<noteq> uid) bs
                \<and> t_certificates s4
                    = filter (\<lambda>c. \<not> certificate_of uid (w_title workshop) c) (t_certificates s)
                      @ filter (\<lambda>c. ci_user_id c \<noteq> uid) cs"
    if sv2: "list_all (\<lambda>q. served (bk q)) (sent_requests (new_events s3 s4))"
  proof -
    note d = revokeAwards_all_served [OF sv2 [unfolded s4_def]]
    show ?thesis
      unfolding s4_def revokeAwards_served [OF d] t
      by (simp add: filter_stamped_badges [OF st(1)] filter_stamped_certificates [OF st(2)])
  qed
  from t u st rv
  show "\<exists>bs cs. t_badges s3 = t_badges s @ bs \<and> t_certificates s3 = t_certificates s @ cs
            \<and> map bi_user_id bs = ids \<and> map ci_user_id cs = ids
            \<and> list_all (stamped_badge issuedAt workshop) bs
            \<and> list_all (stamped_certificate issuedAt workshop) cs
            \<and> (list_all (\<lambda>q. served (bk q)) (sent_requests (new_events s3 s4)) \<longrightarrow>
                  t_badges s4
                    = filter (\<lambda>b. \<not> badge_of uid (w_title workshop) b) (t_badges s)
                      @ filter (\<lambda>b. bi_user_id b \<noteq> uid) bs
                \<and> t_certificates s4
                    = filter (\<lambda>c. \<not> certificate_of uid (w_title workshop) c) (t_certificates s)
                      @ filter (\<lambda>c. ci_user_id c \<noteq> uid) cs)"
    by blast
qed

text \<open>
  C10. Every badge and certificate request of the single award workflow carries that run's
  one timestamp, the workshop's title as it is at that moment, and the participant's id. When
  the store serves what the workflow sends, the badge table and the certificate table each
  gain exactly one row, both with that timestamp and both belonging to that user and title;
  \<^verbatim>\<open>revokeAwards\<close> for the same user and title, when served, then leaves both tables without
  any row of that user and title, so the two rows go together. In the bulk workflow every
  badge and certificate request, for whichever selected participant, carries the one
  timestamp of the run and the title of the selected workshop. Once the bulk workflow is past
  its guards with a selection of participants of the workshop, it sends one badge request per
  selected participant, in the order of the selection; when the store serves what it sends,
  the badge table and the certificate table each gain one row per selected participant, in
  that order, all with the one timestamp and the workshop's title; and a served
  \<^verbatim>\<open>revokeAwards\<close> for a user and that title then removes that user's new badge and new
  certificate together and keeps the new rows of the other participants.
\<close>

theorem awards_share_timestamp_and_title:
  "(let s1 = handleIssueAwards issuedAt bk participant workshop s;
        s2 = snd (revokeAwards bk (p_id participant) (w_title workshop) s1)
    in list_all (award_request_ok issuedAt workshop [p_id participant])
         (sent_requests (new_events s s1))
     \<and> (list_all (\<lambda>q. served (bk q)) (sent_requests (new_events s s1)) \<longrightarrow>
          (\<exists>b c. t_badges s1 = t_badges s @ [b] \<and> t_certificates s1 = t_certificates s @ [c]
               \<and> bi_issued_at b = issuedAt \<and> ci_issued_at c = issuedAt
               \<and> badge_of (p_id participant) (w_title workshop) b
               \<and> certificate_of (p_id participant) (w_title workshop) c)
          \<and> (list_all (\<lambda>q. served (bk q)) (sent_requests (new_events s1 s2)) \<longrightarrow>
                t_badges s2
                  = filter (\<lambda>b. \<not> badge_of (p_id participant) (w_title workshop) b) (t_badges s)
              \<and> t_certificates s2
                  = filter (\<lambda>c. \<not> certificate_of (p_id participant) (w_title workshop) c)
                      (t_certificates s))))
 \<and> (find (\<lambda>w. w_id w = wid) workshops = Some workshop \<longrightarrow>
       list_all (award_request_ok issuedAt workshop selectedParticipants)
         (sent_requests (new_events s
            (handleBulkIssueAwards confirm issuedAt bk (Some wid) selectedParticipants
               workshops s))))
 \<and> (wid \<noteq> [] \<and> selectedParticipants \<noteq> []
      \<and> find (\<lambda>w. w_id w = wid) workshops = Some workshop
      \<and> confirm (''Issue awards to all '' @ string_of_nat (length selectedParticipants)
                  @ '' selected participants?'')
      \<and> set selectedParticipants \<subseteq> p_id ` set (w_participants workshop) \<longrightarrow>
      (let s3 = handleBulkIssueAwards confirm issuedAt bk (Some wid) selectedParticipants
                  workshops s;
           s4 = snd (revokeAwards bk uid (w_title workshop) s3)
       in badge_users (sent_requests (new_events s s3)) = selectedParticipants
        \<and> (list_all (\<lambda>q. served (bk q)) (sent_requests (new_events s s3)) \<longrightarrow>
             (\<exists>bs cs. t_badges s3 = t_badges s @ bs \<and> t_certificates s3 = t_certificates s @ cs
                \<and> map bi_user_id bs = selectedParticipants
                \<and> map ci_user_id cs = selectedParticipants
                \<and> list_all (stamped_badge issuedAt workshop) bs
                \<and> list_all (stamped_certificate issuedAt workshop) cs
                \<and> (list_all (\<lambda>q. served (bk q)) (sent_requests (new_events s3 s4)) \<longrightarrow>
                      t_badges s4
                        = filter (\<lambda>b. \<not> badge_of uid (w_title workshop) b) (t_badges s)
                          @ filter (\<lambda>b. bi_user_id b \<noteq> uid) bs
                    \<and> t_certificates s4
                        = filter (\<lambda>c. \<not> certificate_of uid (w_title workshop) c)
                            (t_certificates s)
                          @ filter (\<lambda>c. ci_user_id c \<noteq> uid) cs)))))"
proof -
  define s1 where "s1 = handleIssueAwards issuedAt bk participant workshop s"
  define s2 where "s2 = snd (revokeAwards bk (p_id participant) (w_title workshop) s1)"
  let ?uid = "p_id participant" and ?title = "w_title workshop"
  have sent1: "sent_requests (new_events s s1)
                 = sequence_sent bk issuedAt ?uid (p_name participant) workshop"
    unfolding s1_def by (rule handleIssueAwards_sent)
  have a: "list_all (award_request_ok issuedAt workshop [?uid]) (sent_requests (new_events s s1))"
    unfolding sent1 by (rule sequence_sent_ok(1))
  have b: "\<exists>b c. t_badges s1 = t_badges s @ [b] \<and> t_certificates s1 = t_certificates s @ [c]
               \<and> bi_issued_at b = issuedAt \<and> ci_issued_at c = issuedAt
               \<and> badge_of ?uid ?title b \<and> certificate_of ?uid ?title c"
    if sv: "list_all (\<lambda>q. served (bk q)) (sent_requests (new_events s s1))"
  proof -
    note sv' = sv [unfolded sent1]
    obtain m where m: "s1 = alert m (snd (issueAwardsTo issuedAt bk ?uid (p_name participant) workshop s))"
      unfolding s1_def using handleIssueAwards_state by blast
    from issueAwardsTo_served [OF sequence_all_served [OF sv'], of s]
    show ?thesis unfolding m by (simp add: alert_def)
  qed
  have c: "t_badges s2 = filter (\<lambda>b. \<not> badge_of ?uid ?title b) (t_badges s)
         \<and> t_certificates s2 = filter (\<lambda>c. \<not> certificate_of ?uid ?title c) (t_certificates s)"
    if sv: "list_all (\<lambda>q. served (bk q)) (sent_requests (new_events s s1))"
      and sv2: "list_all (\<lambda>q. served (bk q)) (sent_requests (new_events s1 s2))"
  proof -
    from b [OF sv] obtain b c where
      t: "t_badges s1 = t_badges s @ [b]" "t_certificates s1 = t_certificates s @ [c]"
      and of': "badge_of ?uid ?title b" "certificate_of ?uid ?title c"
      by blast
    have d1: "served (bk (DeleteBadges ?uid ?title))"
      using sv2 unfolding s2_def revokeAwards_sent by (auto split: if_splits)
    then have "\<not> rejects (bk (DeleteBadges ?uid ?title))" by (rule served_not_rejects)
    then have d2: "served (bk (DeleteCertificates ?uid ?title))"
      using sv2 unfolding s2_def revokeAwards_sent by simp
    show ?thesis
      unfolding s2_def revokeAwards_served [OF d1 d2] t using of' by simp
  qed
  have d: "list_all (award_request_ok issuedAt workshop selectedParticipants)
         (sent_requests (new_events s
            (handleBulkIssueAwards confirm issuedAt bk (Some wid) selectedParticipants
               workshops s)))"
    if "find (\<lambda>w. w_id w = wid) workshops = Some workshop"
    using that by (rule handleBulkIssueAwards_sent_ok)
  have e: "(let s3 = handleBulkIssueAwards confirm issuedAt bk (Some wid) selectedParticipants
                  workshops s;
           s4 = snd (revokeAwards bk uid (w_title workshop) s3)
       in badge_users (sent_requests (new_events s s3)) = selectedParticipants
        \<and> (list_all (\<lambda>q. served (bk q)) (sent_requests (new_events s s3)) \<longrightarrow>
             (\<exists>bs cs. t_badges s3 = t_badges s @ bs \<and> t_certificates s3 = t_certificates s @ cs
                \<and> map bi_user_id bs = selectedParticipants
                \<and> map ci_user_id cs = selectedParticipants
                \<and> list_all (stamped_badge issuedAt workshop) bs
                \<and> list_all (stamped_certificate issuedAt workshop) cs
                \<and> (list_all (\<lambda>q. served (bk q)) (sent_requests (new_events s3 s4)) \<longrightarrow>
                      t_badges s4
                        = filter (\<lambda>b. \<not> badge_of uid (w_title workshop) b) (t_badges s)
                          @ filter (\<lambda>b. bi_user_id b \<noteq> uid) bs
                    \<and> t_certificates s4
                        = filter (\<lambda>c. \<not> certificate_of uid (w_title workshop) c)
                            (t_certificates s)
                          @ filter (\<lambda>c. ci_user_id c \<noteq> uid) cs))))"
    if g: "wid \<noteq> [] \<and> selectedParticipants \<noteq> []
      \<and> find (\<lambda>w. w_id w = wid) workshops = Some workshop
      \<and> confirm (''Issue awards to all '' @ string_of_nat (length selectedParticipants)
                  @ '' selected participants?'')
      \<and> set selectedParticipants \<subseteq> p_id ` set (w_participants workshop)"
  proof -
    from g have g1: "wid \<noteq> []" and g2: "selectedParticipants \<noteq> []"
      and g3: "find (\<lambda>w. w_id w = wid) workshops = Some workshop"
      and g4: "confirm (''Issue awards to all '' @ string_of_nat (length selectedParticipants)
                  @ '' selected participants?'')"
      and g5: "set selectedParticipants \<subseteq> p_id ` set (w_participants workshop)"
      by blast+
    note B1 = bulk_awards_served(1)
               [where s = s and bk = bk and issuedAt = issuedAt
                  and confirm = confirm, OF g1 g2 g3 g4 g5]
    note B2 = bulk_awards_served(2)
               [where s = s and bk = bk and issuedAt = issuedAt and uid = uid
                  and confirm = confirm, OF g1 g2 g3 g4 g5]
    show ?thesis unfolding Let_def using B1 B2 by blast
  qed
  from a b c d have single:
    "(let s1 = handleIssueAwards issuedAt bk participant workshop s;
        s2 = snd (revokeAwards bk (p_id participant) (w_title workshop) s1)
    in list_all (award_request_ok issuedAt workshop [p_id participant])
         (sent_requests (new_events s s1))
     \<and> (list_all (\<lambda>q. served (bk q)) (sent_requests (new_events s s1)) \<longrightarrow>
          (\<exists>b c. t_badges s1 = t_badges s @ [b] \<and> t_certificates s1 = t_certificates s @ [c]
               \<and> bi_issued_at b = issuedAt \<and> ci_issued_at c = issuedAt
               \<and> badge_of (p_id participant) (w_title workshop) b
               \<and> certificate_of (p_id participant) (w_title workshop) c)
          \<and> (list_all (\<lambda>q. served (bk q)) (sent_requests (new_events s1 s2)) \<longrightarrow>
                t_badges s2
                  = filter (\<lambda>b. \<not> badge_of (p_id participant) (w_title workshop) b) (t_badges s)
              \<and> t_certificates s2
                  = filter (\<lambda>c. \<not> certificate_of (p_id participant) (w_title workshop) c)
                      (t_certificates s))))"
    unfolding Let_def s1_def [symmetric] s2_def [symmetric] by blast
  from single d e show ?thesis by blast
qed

lemmas award_eval =
  handleIssueAwards_def issueAwardsTo_def issueBadge_def issueCertificate_def
  sendNotification_def query_dropped_def send_def Let_def await_dropped_def andThen_def
  alert_def ex_participant_def ex_workshop_def ex_world_def revokeAwards_def new_events_def

text \<open>
  On a store that serves everything: awards issued to one participant and revoked again, and
  awards issued in bulk to the two participants of a workshop, after which the awards of the
  first are revoked and those of the second stay.
\<close>

theorem awards_share_timestamp_and_title_witness:
  "map (\<lambda>b. (bi_user_id b, bi_workshop_title b, bi_issued_at b))
       (t_badges (handleIssueAwards ''2024-05-01T10:00:00.000Z'' serve_all ex_participant
                    (ex_workshop ''w1'' 10 CES 2) (ex_world [])))
     = [(''u0'', ''Intro'', ''2024-05-01T10:00:00.000Z'')]
   \<and> map (\<lambda>c. (ci_user_id c, ci_workshop_title c, ci_issued_at c))
       (t_certificates (handleIssueAwards ''2024-05-01T10:00:00.000Z'' serve_all ex_participant
                    (ex_workshop ''w1'' 10 CES 2) (ex_world [])))
     = [(''u0'', ''Intro'', ''2024-05-01T10:00:00.000Z'')]
   \<and> t_badges (snd (revokeAwards serve_all ''u0'' ''Intro''
                 (handleIssueAwards ''2024-05-01T10:00:00.000Z'' serve_all ex_participant
                    (ex_workshop ''w1'' 10 CES 2) (ex_world [])))) = []
   \<and> t_certificates (snd (revokeAwards serve_all ''u0'' ''Intro''
                 (handleIssueAwards ''2024-05-01T10:00:00.000Z'' serve_all ex_participant
                    (ex_workshop ''w1'' 10 CES 2) (ex_world [])))) = []
   \<and> map (\<lambda>b. (bi_user_id b, bi_workshop_title b, bi_issued_at b))
       (t_badges (handleBulkIssueAwards yes ''2024-05-01T10:00:00.000Z'' serve_all (Some ''w1'')
                    [''u0'', ''u1''] [ex_workshop ''w1'' 10 CES 2] (ex_world [])))
     = [(''u0'', ''Intro'', ''2024-05-01T10:00:00.000Z''),
        (''u1'', ''Intro'', ''2024-05-01T10:00:00.000Z'')]
   \<and> map (\<lambda>c. (ci_user_id c, ci_workshop_title c, ci_issued_at c))
       (t_certificates (handleBulkIssueAwards yes ''2024-05-01T10:00:00.000Z'' serve_all
                    (Some ''w1'') [''u0'', ''u1''] [ex_workshop ''w1'' 10 CES 2] (ex_world [])))
     = [(''u0'', ''Intro'', ''2024-05-01T10:00:00.000Z''),
        (''u1'', ''Intro'', ''2024-05-01T10:00:00.000Z'')]
   \<and> map (\<lambda>b. (bi_user_id b, bi_workshop_title b, bi_issued_at b))
       (t_badges (snd (revokeAwards serve_all ''u0'' ''Intro''
          (handleBulkIssueAwards yes ''2024-05-01T10:00:00.000Z'' serve_all (Some ''w1'')
                    [''u0'', ''u1''] [ex_workshop ''w1'' 10 CES 2] (ex_world [])))))
     = [(''u1'', ''Intro'', ''2024-05-01T10:00:00.000Z'')]
   \<and> map (\<lambda>c. (ci_user_id c, ci_workshop_title c, ci_issued_at c))
       (t_certificates (snd (revokeAwards serve_all ''u0'' ''Intro''
          (handleBulkIssueAwards yes ''2024-05-01T10:00:00.000Z'' serve_all (Some ''w1'')
                    [''u0'', ''u1''] [ex_workshop ''w1'' 10 CES 2] (ex_world [])))))
     = [(''u1'', ''Intro'', ''2024-05-01T10:00:00.000Z'')]"
proof -
  let ?s1 = "handleIssueAwards ''2024-05-01T10:00:00.000Z'' serve_all ex_participant
               (ex_workshop ''w1'' 10 CES 2) (ex_world [])"
  let ?s2 = "snd (revokeAwards serve_all (p_id ex_participant) (w_title (ex_workshop ''w1'' 10 CES 2)) ?s1)"
  let ?s3 = "handleBulkIssueAwards yes ''2024-05-01T10:00:00.000Z'' serve_all (Some ''w1'')
               [''u0'', ''u1''] [ex_workshop ''w1'' 10 CES 2] (ex_world [])"
  let ?s4 = "snd (revokeAwards serve_all ''u0'' (w_title (ex_workshop ''w1'' 10 CES 2)) ?s3)"
  have h1: "list_all (\<lambda>q. served (serve_all q)) (sent_requests (new_events (ex_world []) ?s1))"
    by (simp add: serve_all_def list_all_iff)
  have h2: "list_all (\<lambda>q. served (serve_all q)) (sent_requests (new_events ?s1 ?s2))"
    by (simp add: serve_all_def list_all_iff)
  have h3: "list_all (\<lambda>q. served (serve_all q)) (sent_requests (new_events (ex_world []) ?s3))"
    by (simp add: serve_all_def list_all_iff)
  have h4: "list_all (\<lambda>q. served (serve_all q)) (sent_requests (new_events ?s3 ?s4))"
    by (simp add: serve_all_def list_all_iff)
  have g: "''w1'' \<noteq> []" "[''u0'', ''u1''] \<noteq> []"
    "find (\<lambda>w. w_id w = ''w1'') [ex_workshop ''w1'' 10 CES 2] = Some (ex_workshop ''w1'' 10 CES 2)"
    "yes (''Issue awards to all '' @ string_of_nat (length [''u0'', ''u1''])
            @ '' selected participants?'')"
    "set [''u0'', ''u1''] \<subseteq> p_id ` set (w_participants (ex_workshop ''w1'' 10 CES 2))"
    by (simp_all add: ex_workshop_def yes_def ex_participants_2 ex_participant_def)
  have ids: "p_id ex_participant = ''u0''" "w_title (ex_workshop ''w1'' 10 CES 2) = ''Intro''"
    by (simp_all add: ex_participant_def ex_workshop_def)
  note T = awards_share_timestamp_and_title
         [where issuedAt = "''2024-05-01T10:00:00.000Z''" and bk = serve_all
            and participant = ex_participant and workshop = "ex_workshop ''w1'' 10 CES 2"
            and s = "ex_world []" and wid = "''w1''"
            and workshops = "[ex_workshop ''w1'' 10 CES 2]"
            and selectedParticipants = "[''u0'', ''u1'']" and confirm = yes and uid = "''u0''"]
  from T h1 h2
  have "t_badges ?s2 = filter (\<lambda>b. \<not> badge_of ''u0'' ''Intro'' b) (t_badges (ex_world []))"
    and "t_certificates ?s2
           = filter (\<lambda>c. \<not> certificate_of ''u0'' ''Intro'' c) (t_certificates (ex_world []))"
    unfolding Let_def ids by blast+
  then have r: "t_badges ?s2 = []" "t_certificates ?s2 = []"
    by (simp_all add: ex_world_def)
  have e: "map (\<lambda>b. (bi_user_id b, bi_workshop_title b, bi_issued_at b)) (t_badges ?s1)
             = [(''u0'', ''Intro'', ''2024-05-01T10:00:00.000Z'')]"
    "map (\<lambda>c. (ci_user_id c, ci_workshop_title c, ci_issued_at c)) (t_certificates ?s1)
             = [(''u0'', ''Intro'', ''2024-05-01T10:00:00.000Z'')]"
    by (simp_all add: award_eval serve_all_def)
  have G: "''w1'' \<noteq> [] \<and> [''u0'', ''u1''] \<noteq> []
      \<and> find (\<lambda>w. w_id w = ''w1'') [ex_workshop ''w1'' 10 CES 2]
          = Some (ex_workshop ''w1'' 10 CES 2)
      \<and> yes (''Issue awards to all '' @ string_of_nat (length [''u0'', ''u1''])
                  @ '' selected participants?'')
      \<and> set [''u0'', ''u1''] \<subseteq> p_id ` set (w_participants (ex_workshop ''w1'' 10 CES 2))"
    by (intro conjI g)
  note T3 = T [THEN conjunct2, THEN conjunct2, THEN mp, OF G, unfolded Let_def]
  note T4 = T3 [THEN conjunct2, THEN mp, OF h3]
  from T4 obtain bs cs where bulk0:
    "t_badges ?s3 = t_badges (ex_world []) @ bs"
    "t_certificates ?s3 = t_certificates (ex_world []) @ cs"
    "map bi_user_id bs = [''u0'', ''u1'']" "map ci_user_id cs = [''u0'', ''u1'']"
    "list_all (stamped_badge ''2024-05-01T10:00:00.000Z'' (ex_workshop ''w1'' 10 CES 2)) bs"
    "list_all (stamped_certificate ''2024-05-01T10:00:00.000Z'' (ex_workshop ''w1'' 10 CES 2)) cs"
    and rv: "list_all (\<lambda>q. served (serve_all q)) (sent_requests (new_events ?s3 ?s4)) \<longrightarrow>
     t_badges ?s4
       = filter (\<lambda>b. \<not> badge_of ''u0'' (w_title (ex_workshop ''w1'' 10 CES 2)) b)
           (t_badges (ex_world []))
         @ filter (\<lambda>b. bi_user_id b \<noteq> ''u0'') bs
     \<and> t_certificates ?s4
       = filter (\<lambda>c. \<not> certificate_of ''u0'' (w_title (ex_workshop ''w1'' 10 CES 2)) c)
           (t_certificates (ex_world []))
         @ filter (\<lambda>c. ci_user_id c \<noteq> ''u0'') cs"
    by (elim exE conjE)
  note bulk = bulk0 rv [THEN mp, OF h4, THEN conjunct1] rv [THEN mp, OF h4, THEN conjunct2]
  from bulk(3,5) obtain b0 b1 where bs: "bs = [b0, b1]"
    "bi_user_id b0 = ''u0''" "bi_user_id b1 = ''u1''"
    "stamped_badge ''2024-05-01T10:00:00.000Z'' (ex_workshop ''w1'' 10 CES 2) b0"
    "stamped_badge ''2024-05-01T10:00:00.000Z'' (ex_workshop ''w1'' 10 CES 2) b1"
    by (auto simp: map_eq_Cons_conv)
  from bulk(4,6) obtain c0 c1 where cs: "cs = [c0, c1]"
    "ci_user_id c0 = ''u0''" "ci_user_id c1 = ''u1''"
    "stamped_certificate ''2024-05-01T10:00:00.000Z'' (ex_workshop ''w1'' 10 CES 2) c0"
    "stamped_certificate ''2024-05-01T10:00:00.000Z'' (ex_workshop ''w1'' 10 CES 2) c1"
    by (auto simp: map_eq_Cons_conv)
  have b3: "map (\<lambda>b. (bi_user_id b, bi_workshop_title b, bi_issued_at b)) (t_badges ?s3)
     = [(''u0'', ''Intro'', ''2024-05-01T10:00:00.000Z''),
        (''u1'', ''Intro'', ''2024-05-01T10:00:00.000Z'')]"
    "map (\<lambda>b. (bi_user_id b, bi_workshop_title b, bi_issued_at b)) (t_badges ?s4)
     = [(''u1'', ''Intro'', ''2024-05-01T10:00:00.000Z'')]"
    using bs unfolding bulk(1) bulk(7)
    by (simp_all add: ex_world_def stamped_badge_def ids)
  have c3: "map (\<lambda>c. (ci_user_id c, ci_workshop_title c, ci_issued_at c)) (t_certificates ?s3)
     = [(''u0'', ''Intro'', ''2024-05-01T10:00:00.000Z''),
        (''u1'', ''Intro'', ''2024-05-01T10:00:00.000Z'')]"
    "map (\<lambda>c. (ci_user_id c, ci_workshop_title c, ci_issued_at c)) (t_certificates ?s4)
     = [(''u1'', ''Intro'', ''2024-05-01T10:00:00.000Z'')]"
    using cs unfolding bulk(2) bulk(8)
    by (simp_all add: ex_world_def stamped_certificate_def ids)
  from r e b3 c3 show ?thesis unfolding ids by simp
qed

subsection \<open>Bulk issue\<close>

text \<open>
  Once the guards are passed and the dialog is accepted, the bulk workflow sends one badge
  request for each selected participant of the workshop, in the order of the selection,
  whatever the store answers to any of them, and shows exactly one alert.
\<close>

lemma bulk_attempts_every_selected:
  assumes "wid \<noteq> []" and "ids \<noteq> []"
    and "find (\<lambda>w. w_id w = wid) workshops = Some workshop"
    and "confirm (''Issue awards to all '' @ string_of_nat (length ids)
                        @ '' selected participants?'')"
    and sel: "set ids \<subseteq> p_id ` set (w_participants workshop)"
  shows "badge_users (sent_requests (new_events s
            (handleBulkIssueAwards confirm issuedAt bk (Some wid) ids workshops s))) = ids"
    and "length (alerts (new_events s
            (handleBulkIssueAwards confirm issuedAt bk (Some wid) ids workshops s))) = 1"
proof -
  from handleBulkIssueAwards_run [of wid ids workshops workshop confirm issuedAt bk s]
    assms(1-4) sel
  obtain rs m tl where
    ev: "events (handleBulkIssueAwards confirm issuedAt bk (Some wid) ids workshops s)
           = events s @ map Sent rs @ Alert m # tl"
    and tl: "tl = [] \<or> tl = [SelectionCleared]"
    and bu: "badge_users rs = ids"
    by blast
  from tl have "sent_requests (map Sent rs @ Alert m # tl) = rs"
    "alerts (map Sent rs @ Alert m # tl) = [m]"
    by (auto simp: sent_requests_append sent_requests_map_Sent alerts_append alerts_map_Sent)
  with bu show "badge_users (sent_requests (new_events s
            (handleBulkIssueAwards confirm issuedAt bk (Some wid) ids workshops s))) = ids"
    and "length (alerts (new_events s
            (handleBulkIssueAwards confirm issuedAt bk (Some wid) ids workshops s))) = 1"
    by (simp_all add: new_events_def ev)
qed

text \<open>
  C7 at a store that answers the badge insert of the first of two selected participants with
  \<^verbatim>\<open>{ data: null, error }\<close>: both sequences are run to their end, the first participant gets
  a certificate and no badge, and the one alert shown announces success for 2 participants.
\<close>

theorem bulk_issue_hides_store_error:
  "\<not> served (refuse_badge_of ''u0''
                (badge_request ''2024-05-01T10:00:00.000Z'' ''u0'' (ex_workshop ''w1'' 10 CES 2)))
   \<and> alerts (events (handleBulkIssueAwards yes ''2024-05-01T10:00:00.000Z''
                        (refuse_badge_of ''u0'') (Some ''w1'') [''u0'', ''u1'']
                        [ex_workshop ''w1'' 10 CES 2] (ex_world [])))
       = [''Successfully issued awards to 2 participants!'']
   \<and> badge_users (sent_requests (events (handleBulkIssueAwards yes ''2024-05-01T10:00:00.000Z''
                        (refuse_badge_of ''u0'') (Some ''w1'') [''u0'', ''u1'']
                        [ex_workshop ''w1'' 10 CES 2] (ex_world []))))
       = [''u0'', ''u1'']
   \<and> map bi_user_id (t_badges (handleBulkIssueAwards yes ''2024-05-01T10:00:00.000Z''
                        (refuse_badge_of ''u0'') (Some ''w1'') [''u0'', ''u1'']
                        [ex_workshop ''w1'' 10 CES 2] (ex_world [])))
       = [''u1'']
   \<and> map ci_user_id (t_certificates (handleBulkIssueAwards yes ''2024-05-01T10:00:00.000Z''
                        (refuse_badge_of ''u0'') (Some ''w1'') [''u0'', ''u1'']
                        [ex_workshop ''w1'' 10 CES 2] (ex_world [])))
       = [''u0'', ''u1'']"
  by (simp add: handleBulkIssueAwards_def bulkItem_def yes_def award_eval ex_participants_2
        refuse_badge_of_def answer_error_def badge_request_def string_of_nat.simps digit_def
        setSelectedParticipantsEmpty_def)

subsection \<open>Join workshop\<close>

lemma find_SomeD: "find P xs = Some x \<Longrightarrow> x \<in> set xs \<and> P x"
  by (induction xs) (auto split: if_splits)

lemma handleJoinWorkshop_expired:
  assumes "find (\<lambda>item. w_id item = wId) workshops = Some w" and "isExpired now (w_date w)"
  shows "handleJoinWorkshop now bk (Some u) workshops wId s
           = alert ''This workshop has already ended and is no longer accepting registrations.'' s"
  using assms by (simp add: handleJoinWorkshop_def)

lemma handleJoinWorkshop_already:
  assumes "find (\<lambda>item. w_id item = wId) workshops = Some w" and "\<not> isExpired now (w_date w)"
    and "u_id u \<in> p_id ` set (w_participants w)"
  shows "handleJoinWorkshop now bk (Some u) workshops wId s
           = alert ''You are already registered for this session!'' s"
  using assms by (auto simp: handleJoinWorkshop_def list_ex_iff)

lemma handleJoinWorkshop_unknown:
  assumes "find (\<lambda>item. w_id item = wId) workshops = None"
  shows "handleJoinWorkshop now bk (Some u) workshops wId s = s"
  using assms by (simp add: handleJoinWorkshop_def)

text \<open>A first join that passes the local checks.\<close>

lemma handleJoinWorkshop_joins:
  assumes w: "find (\<lambda>item. w_id item = wId) workshops = Some w"
    and fresh: "\<not> isExpired now (w_date w)" "u_id u \<notin> p_id ` set (w_participants w)"
  shows "sent_requests (new_events s (handleJoinWorkshop now bk (Some u) workshops wId s)) \<noteq> []"
    and "hd (sent_requests (new_events s (handleJoinWorkshop now bk (Some u) workshops wId s)))
           = InsertParticipant wId (u_id u)"
    and "t_workshop_participants (handleJoinWorkshop now bk (Some u) workshops wId s)
           = (if served (bk (InsertParticipant wId (u_id u)))
              then t_workshop_participants s @ [(wId, u_id u)]
              else t_workshop_participants s)"
    and "t_profiles (handleJoinWorkshop now bk (Some u) workshops wId s) = t_profiles s"
proof -
  let ?N = "InsertNotification \<lparr> ni_user_id = u_id u, ni_title = ''Registered!'',
              ni_message = ''You'' @ ap @ ''ve joined '' @ dq @ w_title w @ dq
                               @ ''. See you there!'', ni_type = SUCCESS, ni_is_read = False \<rparr>"
  let ?J = "InsertParticipant wId (u_id u)"
  have nl: "\<not> list_ex (\<lambda>p. p_id p = u_id u) (w_participants w)"
    using fresh(2) by (auto simp: list_ex_iff image_iff)
  have h: "handleJoinWorkshop now bk (Some u) workshops wId s
     = (case andThen (query_checked bk ?J s) (query_dropped bk ?N) of
          (Inr r, s1) \<Rightarrow> setDataTick (alert ''Successfully registered!'' s1)
        | (Inl e, s1) \<Rightarrow> alert (''Registration failed: '' @ formatError e) s1)"
    using w fresh(1) nl
    by (simp add: handleJoinWorkshop_def joinWorkshop_def sendNotification_def [abs_def])
  have all: "sent_requests (new_events s (handleJoinWorkshop now bk (Some u) workshops wId s)) \<noteq> []
    \<and> hd (sent_requests (new_events s (handleJoinWorkshop now bk (Some u) workshops wId s))) = ?J
    \<and> t_workshop_participants (handleJoinWorkshop now bk (Some u) workshops wId s)
           = (if served (bk ?J) then t_workshop_participants s @ [(wId, u_id u)]
              else t_workshop_participants s)
    \<and> t_profiles (handleJoinWorkshop now bk (Some u) workshops wId s) = t_profiles s"
    unfolding h
    by (cases "bk ?J" rule: served.cases; cases "bk ?N" rule: served.cases)
       (simp_all add: query_checked_def query_dropped_def send_def Let_def await_checked_def
          await_dropped_def andThen_def alert_def setDataTick_def new_events_def)
  from all show "sent_requests (new_events s (handleJoinWorkshop now bk (Some u) workshops wId s)) \<noteq> []"
    and "hd (sent_requests (new_events s (handleJoinWorkshop now bk (Some u) workshops wId s))) = ?J"
    and "t_workshop_participants (handleJoinWorkshop now bk (Some u) workshops wId s)
           = (if served (bk ?J) then t_workshop_participants s @ [(wId, u_id u)]
              else t_workshop_participants s)"
    and "t_profiles (handleJoinWorkshop now bk (Some u) workshops wId s) = t_profiles s"
    by blast+
qed

text \<open>What a served reload shows of a stored participation.\<close>

lemma nest_participants_member:
  assumes "(wid, uid) \<in> set (t_workshop_participants s)" and "uid \<in> pr_id ` set (t_profiles s)"
  shows "\<exists>pf. Some pf \<in> set (nest_participants s wid) \<and> pf_id pf = uid"
proof -
  from assms(2) obtain r where r: "find (\<lambda>r. pr_id r = uid) (t_profiles s) = Some r"
    by (cases "find (\<lambda>r. pr_id r = uid) (t_profiles s)") (auto simp: find_None_iff)
  then have id: "pr_id r = uid" by (auto simp: find_Some_iff)
  let ?pf = "\<lparr> pf_id = pr_id r, pf_name = pr_name r, pf_email = pr_email r,
               pf_avatar_url = pr_avatar_url r \<rparr>"
  have "Some ?pf \<in> set (nest_participants s wid)"
    unfolding nest_participants_def using assms(1) r by (force simp: image_iff)
  with id show ?thesis by (intro exI [of _ ?pf]) simp
qed

lemma map_filter_id_member: "Some x \<in> set xs \<Longrightarrow> x \<in> set (List.map_filter (\<lambda>p. p) xs)"
  by (induction xs) (auto simp: map_filter_simps split: option.splits)

lemma reloaded_has_participant:
  assumes rf: "reads_from s rows"
    and stored: "(wId, u_id u) \<in> set (t_workshop_participants s)"
    and prof: "u_id u \<in> pr_id ` set (t_profiles s)"
    and w: "find (\<lambda>item. w_id item = wId) (map mapWorkshop rows) = Some w"
  shows "u_id u \<in> p_id ` set (w_participants w)"
proof -
  from find_SomeD [OF w] obtain r where r: "r \<in> set rows" "w = mapWorkshop r" "w_id w = wId"
    by auto
  then have rid: "wr_id r = wId" by (simp add: mapWorkshop_def)
  from rf r(1) have np: "wr_workshop_participants r = nest_participants s (wr_id r)"
    by (simp add: reads_from_def list_all_iff)
  from nest_participants_member [OF stored prof] obtain pf where
    pf: "Some pf \<in> set (nest_participants s wId)" "pf_id pf = u_id u" by blast
  have "pf \<in> set (List.map_filter (\<lambda>p. p) (wr_workshop_participants r))"
    using pf(1) np rid by (simp add: map_filter_id_member)
  then have "mapParticipant pf \<in> set (w_participants w)"
    unfolding r(2) by (simp add: mapWorkshop_def)
  moreover have "p_id (mapParticipant pf) = u_id u"
    using pf(2) by (simp add: mapParticipant_def)
  ultimately show ?thesis by (metis image_eqI)
qed

lemma getWorkshops_served: "getWorkshops (Resolves (Some rows) None) = Inr (map mapWorkshop rows)"
  by (simp add: getWorkshops_def try_catch_def await_checked_def data_or_empty_def)

lemma join_after_reload:
  assumes rf: "reads_from s rows"
    and stored: "(wId, u_id u) \<in> set (t_workshop_participants s)"
    and prof: "u_id u \<in> pr_id ` set (t_profiles s)"
  shows "handleJoinWorkshop now bk (Some u) (map mapWorkshop rows) wId s = s
       \<or> handleJoinWorkshop now bk (Some u) (map mapWorkshop rows) wId s
           = alert ''This workshop has already ended and is no longer accepting registrations.'' s
       \<or> handleJoinWorkshop now bk (Some u) (map mapWorkshop rows) wId s
           = alert ''You are already registered for this session!'' s"
proof (cases "find (\<lambda>item. w_id item = wId) (map mapWorkshop rows)")
  case None
  then show ?thesis by (simp add: handleJoinWorkshop_unknown)
next
  case (Some w)
  show ?thesis
  proof (cases "isExpired now (w_date w)")
    case True
    with Some show ?thesis by (simp add: handleJoinWorkshop_expired)
  next
    case False
    from reloaded_has_participant [OF rf stored prof Some] Some False
    show ?thesis by (simp add: handleJoinWorkshop_already)
  qed
qed

text \<open>
  C5, as the code has it. For every workshop of the list the view holds and every signed-in
  user, the join workflow only shows an alert, sends nothing and leaves the store as it is when
  the workshop's date is before now, and likewise when the user's id is among the participants
  of that workshop in the list. After a reload that the store served, a user whose
  participation and profile are stored is turned away in the same way, with no write. So a
  first join whose insert was served, followed by a served reload and a second join, leaves
  exactly one new participation record. The check is against the list in memory: nothing is
  promised for a second join made before the list was reloaded.
\<close>

theorem join_rejected_before_write:
  "(find (\<lambda>item. w_id item = wId) workshops = Some w \<and> isExpired now (w_date w) \<longrightarrow>
      handleJoinWorkshop now bk (Some u) workshops wId s
        = alert ''This workshop has already ended and is no longer accepting registrations.'' s)
 \<and> (find (\<lambda>item. w_id item = wId) workshops = Some w \<and> \<not> isExpired now (w_date w)
      \<and> u_id u \<in> p_id ` set (w_participants w) \<longrightarrow>
      handleJoinWorkshop now bk (Some u) workshops wId s
        = alert ''You are already registered for this session!'' s)
 \<and> (reads_from s rows \<and> (wId, u_id u) \<in> set (t_workshop_participants s)
      \<and> u_id u \<in> pr_id ` set (t_profiles s) \<longrightarrow>
      (\<exists>reloaded. getWorkshops (Resolves (Some rows) None) = Inr reloaded
         \<and> (handleJoinWorkshop now bk (Some u) reloaded wId s = s
            \<or> handleJoinWorkshop now bk (Some u) reloaded wId s
                = alert ''This workshop has already ended and is no longer accepting registrations.'' s
            \<or> handleJoinWorkshop now bk (Some u) reloaded wId s
                = alert ''You are already registered for this session!'' s)))
 \<and> (find (\<lambda>item. w_id item = wId) workshops = Some w \<and> \<not> isExpired now (w_date w)
      \<and> u_id u \<notin> p_id ` set (w_participants w)
      \<and> served (bk (InsertParticipant wId (u_id u)))
      \<and> u_id u \<in> pr_id ` set (t_profiles s)
      \<and> reads_from (handleJoinWorkshop now bk (Some u) workshops wId s) rows \<longrightarrow>
      t_workshop_participants
        (handleJoinWorkshop now' bk' (Some u) (map mapWorkshop rows) wId
           (handleJoinWorkshop now bk (Some u) workshops wId s))
        = t_workshop_participants s @ [(wId, u_id u)])"
proof (intro conjI impI)
  assume "find (\<lambda>item. w_id item = wId) workshops = Some w \<and> isExpired now (w_date w)"
  then show "handleJoinWorkshop now bk (Some u) workshops wId s
        = alert ''This workshop has already ended and is no longer accepting registrations.'' s"
    by (simp add: handleJoinWorkshop_expired)
next
  assume "find (\<lambda>item. w_id item = wId) workshops = Some w \<and> \<not> isExpired now (w_date w)
      \<and> u_id u \<in> p_id ` set (w_participants w)"
  then show "handleJoinWorkshop now bk (Some u) workshops wId s
        = alert ''You are already registered for this session!'' s"
    by (simp add: handleJoinWorkshop_already)
next
  assume a: "reads_from s rows \<and> (wId, u_id u) \<in> set (t_workshop_participants s)
      \<and> u_id u \<in> pr_id ` set (t_profiles s)"
  then have "handleJoinWorkshop now bk (Some u) (map mapWorkshop rows) wId s = s
       \<or> handleJoinWorkshop now bk (Some u) (map mapWorkshop rows) wId s
           = alert ''This workshop has already ended and is no longer accepting registrations.'' s
       \<or> handleJoinWorkshop now bk (Some u) (map mapWorkshop rows) wId s
           = alert ''You are already registered for this session!'' s"
    by (intro join_after_reload) simp_all
  then show "\<exists>reloaded. getWorkshops (Resolves (Some rows) None) = Inr reloaded
         \<and> (handleJoinWorkshop now bk (Some u) reloaded wId s = s
            \<or> handleJoinWorkshop now bk (Some u) reloaded wId s
                = alert ''This workshop has already ended and is no longer accepting registrations.'' s
            \<or> handleJoinWorkshop now bk (Some u) reloaded wId s
                = alert ''You are already registered for this session!'' s)"
    by (intro exI [of _ "map mapWorkshop rows"]) (simp add: getWorkshops_served)
next
  assume a: "find (\<lambda>item. w_id item = wId) workshops = Some w \<and> \<not> isExpired now (w_date w)
      \<and> u_id u \<notin> p_id ` set (w_participants w)
      \<and> served (bk (InsertParticipant wId (u_id u)))
      \<and> u_id u \<in> pr_id ` set (t_profiles s)
      \<and> reads_from (handleJoinWorkshop now bk (Some u) workshops wId s) rows"
  define s1 where "s1 = handleJoinWorkshop now bk (Some u) workshops wId s"
  from a have w: "find (\<lambda>item. w_id item = wId) workshops = Some w"
    and fresh: "\<not> isExpired now (w_date w)" "u_id u \<notin> p_id ` set (w_participants w)"
    and sv: "served (bk (InsertParticipant wId (u_id u)))"
    and prof: "u_id u \<in> pr_id ` set (t_profiles s)"
    and rf: "reads_from s1 rows"
    unfolding s1_def by blast+
  have t1: "t_workshop_participants s1 = t_workshop_participants s @ [(wId, u_id u)]"
    unfolding s1_def using handleJoinWorkshop_joins(3) [OF w fresh, where s = s and bk = bk] sv
    by simp
  have p1: "t_profiles s1 = t_profiles s"
    unfolding s1_def by (rule handleJoinWorkshop_joins(4) [OF w fresh])
  have stored: "(wId, u_id u) \<in> set (t_workshop_participants s1)" by (simp add: t1)
  have prof1: "u_id u \<in> pr_id ` set (t_profiles s1)" using prof by (simp add: p1)
  from join_after_reload [OF rf stored prof1, of now' bk']
  have "t_workshop_participants (handleJoinWorkshop now' bk' (Some u) (map mapWorkshop rows) wId s1)
          = t_workshop_participants s1"
    by (auto simp: alert_def)
  then show "t_workshop_participants
        (handleJoinWorkshop now' bk' (Some u) (map mapWorkshop rows) wId
           (handleJoinWorkshop now bk (Some u) workshops wId s))
        = t_workshop_participants s @ [(wId, u_id u)]"
    unfolding s1_def [symmetric] by (simp add: t1)
qed

lemmas join_eval =
  handleJoinWorkshop_def joinWorkshop_def sendNotification_def query_checked_def
  query_dropped_def send_def Let_def await_checked_def await_dropped_def andThen_def alert_def
  setDataTick_def isExpired_def ex_workshop_def ex_participants_def ex_user_def
  profileUser_def ex_profile_def ex_world_def

text \<open>
  C5, as the specification words it, fails. On a store that serves everything a user joins,
  and joins again while the view still holds the list it had before the first join: the
  check against that list passes a second time, the workflow announces success twice, and
  the participation table holds two records for the same user and workshop.
\<close>

theorem join_twice_counterexample:
  "alerts (events
      (handleJoinWorkshop 0 serve_all (Some (ex_user ''u9'' MEMBER None))
         [ex_workshop ''w1'' 10 CES 0] ''w1''
         (handleJoinWorkshop 0 serve_all (Some (ex_user ''u9'' MEMBER None))
            [ex_workshop ''w1'' 10 CES 0] ''w1''
            (ex_world [ex_profile ''u9'' MEMBER None]))))
     = [''Successfully registered!'', ''Successfully registered!'']
   \<and> t_workshop_participants
        (handleJoinWorkshop 0 serve_all (Some (ex_user ''u9'' MEMBER None))
           [ex_workshop ''w1'' 10 CES 0] ''w1''
           (handleJoinWorkshop 0 serve_all (Some (ex_user ''u9'' MEMBER None))
              [ex_workshop ''w1'' 10 CES 0] ''w1''
              (ex_world [ex_profile ''u9'' MEMBER None])))
     = [(''w1'', ''u9''), (''w1'', ''u9'')]"
  by (simp add: join_eval serve_all_def)

text \<open>
  A join, a reload and a second join on a store that serves everything: one record. A join
  after the workshop's date: the alert, and nothing else.
\<close>

theorem join_rejected_before_write_witness:
  "t_workshop_participants
     (handleJoinWorkshop 0 serve_all (Some (ex_user ''u9'' MEMBER None))
        [ex_workshop ''w1'' 10 CES 0] ''w1'' (ex_world [ex_profile ''u9'' MEMBER None]))
     = [(''w1'', ''u9'')]
   \<and> reads_from
        (handleJoinWorkshop 0 serve_all (Some (ex_user ''u9'' MEMBER None))
           [ex_workshop ''w1'' 10 CES 0] ''w1'' (ex_world [ex_profile ''u9'' MEMBER None]))
        [ex_workshop_row]
   \<and> t_workshop_participants
        (handleJoinWorkshop 5 serve_all (Some (ex_user ''u9'' MEMBER None))
           (map mapWorkshop [ex_workshop_row]) ''w1''
           (handleJoinWorkshop 0 serve_all (Some (ex_user ''u9'' MEMBER None))
              [ex_workshop ''w1'' 10 CES 0] ''w1'' (ex_world [ex_profile ''u9'' MEMBER None])))
     = [(''w1'', ''u9'')]
   \<and> handleJoinWorkshop 20 serve_all (Some (ex_user ''u9'' MEMBER None))
        [ex_workshop ''w1'' 10 CES 0] ''w1'' (ex_world [])
     = alert ''This workshop has already ended and is no longer accepting registrations.''
         (ex_world [])"
proof -
  let ?u = "ex_user ''u9'' MEMBER None"
  let ?w = "ex_workshop ''w1'' 10 CES 0"
  let ?s = "ex_world [ex_profile ''u9'' MEMBER None]"
  let ?s1 = "handleJoinWorkshop 0 serve_all (Some ?u) [?w] ''w1'' ?s"
  have f: "find (\<lambda>item. w_id item = ''w1'') [?w] = Some ?w"
    by (simp add: ex_workshop_def)
  have ne: "\<not> isExpired 0 (w_date ?w)" and ex: "isExpired 20 (w_date ?w)"
    by (simp_all add: isExpired_def ex_workshop_def)
  have nm: "u_id ?u \<notin> p_id ` set (w_participants ?w)"
    by (simp add: ex_workshop_def ex_participants_def)
  have sv: "served (serve_all (InsertParticipant ''w1'' (u_id ?u)))"
    by (simp add: serve_all_def)
  have pr: "u_id ?u \<in> pr_id ` set (t_profiles ?s)"
    by (simp add: ex_user_def profileUser_def ex_profile_def ex_world_def)
  have uid: "u_id ?u = ''u9''"
    by (simp add: ex_user_def profileUser_def ex_profile_def)
  have t1: "t_workshop_participants ?s1 = [(''w1'', ''u9'')]"
    and p1: "t_profiles ?s1 = [ex_profile ''u9'' MEMBER None]"
    by (simp_all add: join_eval serve_all_def)
  have rf: "reads_from ?s1 [ex_workshop_row]"
    unfolding reads_from_def nest_participants_def t1 p1
    by (simp add: ex_workshop_row_def ex_profile_def)
  note T = join_rejected_before_write
             [of "''w1''" "[?w]" ?w 0 serve_all ?u ?s "[ex_workshop_row]" 5 serve_all]
  from T f ne nm sv pr rf
  have two: "t_workshop_participants
        (handleJoinWorkshop 5 serve_all (Some ?u) (map mapWorkshop [ex_workshop_row]) ''w1'' ?s1)
     = t_workshop_participants ?s @ [(''w1'', u_id ?u)]"
    unfolding uid by blast
  note T2 = join_rejected_before_write
             [of "''w1''" "[?w]" ?w 20 serve_all ?u "ex_world []" "[]" 0 serve_all]
  from T2 f ex
  have late: "handleJoinWorkshop 20 serve_all (Some ?u) [?w] ''w1'' (ex_world [])
     = alert ''This workshop has already ended and is no longer accepting registrations.''
         (ex_world [])"
    by blast
  from t1 rf two late show ?thesis
    by (simp add: uid ex_world_def)
qed

end
